theory Spec2Isabelle
  imports Complex_Main "HOL-Library.Word" "HOL-Library.Log_Nat"
begin

unbundle bit_operations_syntax

section \<open>NV12 to RGB(A) conversion (cuda/cudaYUV-NV12.cu)\<close>

subsection \<open>Machine types\<close>

type_synonym u8 = "8 word"
type_synonym u32 = "32 word"
type_synonym size_t = "64 word"

text \<open>
  CUDA's \<open>dim3\<close> (three \<open>unsigned int\<close>) and \<open>uint3\<close>. The constructor of \<open>uint3\<close> keeps
  the name of the CUDA function that builds it.
\<close>

datatype dim3 = dim3 (dim_x: u32) (dim_y: u32) (dim_z: u32)

datatype uint3 = make_uint3 (uint3_x: u32) (uint3_y: u32) (uint3_z: u32)

datatype cudaError =
    cudaSuccess
  | cudaErrorInvalidValue
  | cudaErrorInvalidDevicePointer
  | cudaErrorRuntime nat

text \<open>
  What one unit of work (one CUDA thread) does to memory: the byte offsets it loads from
  \<open>srcImageU8\<close>, in program order, and the elements it stores into \<open>dstImage\<close>, each
  with its element index. A thread that returns at a guard has the empty effect.
\<close>

record 'T effect =
  loads :: "nat list"
  stores :: "(nat \<times> 'T) list"

definition no_effect :: "'T effect" where
  "no_effect = \<lparr>loads = [], stores = []\<rparr>"

subsection \<open>Constants\<close>

definition COLOR_COMPONENT_MASK :: u32 where
  "COLOR_COMPONENT_MASK = 0x3FF"

definition COLOR_COMPONENT_BIT_SIZE :: nat where
  "COLOR_COMPONENT_BIT_SIZE = 10"

subsection \<open>Colour conversion\<close>

text \<open>
  \<open>float\<close> is IEEE 754 binary32. A \<open>float\<close> value is the real number it denotes, and every
  operation of the source that delivers a \<open>float\<close> (a literal, a conversion from an
  integer, \<open>+\<close>, \<open>-\<close>, \<open>*\<close>, \<open>/\<close>) is the exact operation followed by rounding to binary32:
  to the nearest number with a significand of 24 bits, ties to the even significand, with
  the exponent of the last significand bit not below -149 (subnormal numbers). Overflow to
  infinity is not modelled: every intermediate value of \<open>YUV2RGB\<close> is below \<open>2 ^ 35\<close> in
  magnitude. Each operation rounds on its own; a contraction of \<open>a * b + c\<close> into one fused
  operation, which the language leaves to the compiler, is not modelled.

  \<open>rne y\<close> is the integer nearest to \<open>y\<close>, the even one at a tie. \<open>float_exponent x\<close> is
  the exponent \<open>e\<close> with \<open>2 ^ e \<le> \<bar>x\<bar> < 2 ^ (e + 1)\<close>, for \<open>x\<close> other than 0.
\<close>

definition rne :: "real \<Rightarrow> int" where
  "rne y =
     (let f = \<lfloor>y\<rfloor>; d = y - of_int f
      in if d < 1 / 2 then f
         else if 1 / 2 < d then f + 1
         else if even f then f else f + 1)"

definition float_exponent :: "real \<Rightarrow> int" where
  "float_exponent x =
     (if 1 \<le> \<bar>x\<bar> then int (floorlog 2 (nat \<lfloor>\<bar>x\<bar>\<rfloor>)) - 1
      else - int (floorlog 2 (nat \<lceil>1 / \<bar>x\<bar>\<rceil> - 1)))"

definition float32 :: "real \<Rightarrow> real" where
  "float32 x =
     (if x = 0 then 0
      else (let e = max (float_exponent x) (- 126);
                q = 2 powi (e - 23)
            in of_int (rne (x / q)) * q))"

text \<open>The arithmetic of \<open>float\<close> operands.\<close>

definition fadd :: "real \<Rightarrow> real \<Rightarrow> real" where
  "fadd a b = float32 (a + b)"

definition fsub :: "real \<Rightarrow> real \<Rightarrow> real" where
  "fsub a b = float32 (a - b)"

definition fmul :: "real \<Rightarrow> real \<Rightarrow> real" where
  "fmul a b = float32 (a * b)"

definition fdiv :: "real \<Rightarrow> real \<Rightarrow> real" where
  "fdiv a b = float32 (a / b)"

text \<open>\<open>clamp\<close>: \<open>fminf\<close> and \<open>fmaxf\<close> return one of their arguments and do not round.\<close>

definition clamp :: "real \<Rightarrow> real" where
  "clamp x = min (max x 0) 255"

text \<open>
  \<open>YUV2RGB<T>\<close>. The pixel constructor \<open>make_vec<T>\<close> of cudaVector.h is the parameter
  \<open>make_vec_T\<close>. \<open>float(yuvi.x)\<close> rounds the 32-bit field; the literals \<open>1.0f\<close>,
  \<open>255.0f\<close>, \<open>512.0f\<close> and \<open>1024.0f\<close> are binary32 numbers, \<open>1.140f\<close>, \<open>0.395f\<close>,
  \<open>0.581f\<close> and \<open>2.032f\<close> are rounded.
\<close>

definition YUV2RGB :: "(real \<Rightarrow> real \<Rightarrow> real \<Rightarrow> real \<Rightarrow> 'T) \<Rightarrow> uint3 \<Rightarrow> 'T" where
  "YUV2RGB make_vec_T yuvi =
     (let luma = float32 (real (unat (uint3_x yuvi)));
          u = fsub (float32 (real (unat (uint3_y yuvi)))) 512;
          v = fsub (float32 (real (unat (uint3_z yuvi)))) 512;
          s = fmul (fdiv 1 1024) 255
      in make_vec_T (clamp (fmul (fadd luma (fmul (float32 1.140) v)) s))
                  (clamp (fmul (fsub (fsub luma (fmul (float32 0.395) u))
                                     (fmul (float32 0.581) v)) s))
                  (clamp (fmul (fadd luma (fmul (float32 2.032) u)) s)) 255)"

subsection \<open>Destination pixels\<close>

text \<open>
  The four instances of the template parameter \<open>T\<close> and their pixels. Bytes are
  \<open>unsigned char\<close>.
\<close>

datatype pixel_type = T_uchar3 | T_uchar4 | T_float3 | T_float4

datatype pixel =
    uchar3 u8 u8 u8
  | uchar4 u8 u8 u8 u8
  | float3 real real real
  | float4 real real real real

text \<open>
  Modelled from the spec: the conversion of a scalar to a byte channel inside
  \<open>make_vec<T>\<close>, which is missing with it. The spec says that values are written in the
  destination's native numeric type; the C conversion of a \<open>float\<close> to \<open>unsigned char\<close>
  drops the fraction.
\<close>

definition to_uchar :: "real \<Rightarrow> u8" where
  "to_uchar f = word_of_int \<lfloor>f\<rfloor>"

text \<open>
  Modelled from the spec: \<open>make_vec<T>\<close> (cudaVector.h) is not part of the sources at
  hand. The spec describes it as the generic operation that constructs a pixel of type
  \<open>T\<close> from 4 scalars, for byte-RGB, byte-RGBA, float-RGB and float-RGBA, each with its
  channel count and numeric representation.
\<close>

fun make_vec :: "pixel_type \<Rightarrow> real \<Rightarrow> real \<Rightarrow> real \<Rightarrow> real \<Rightarrow> pixel" where
  "make_vec T_uchar3 x y z w = uchar3 (to_uchar x) (to_uchar y) (to_uchar z)"
| "make_vec T_uchar4 x y z w = uchar4 (to_uchar x) (to_uchar y) (to_uchar z) (to_uchar w)"
| "make_vec T_float3 x y z w = float3 x y z"
| "make_vec T_float4 x y z w = float4 x y z w"

text \<open>The colour channels of a pixel and its alpha channel, when it has one.\<close>

fun pixel_rgb :: "pixel \<Rightarrow> real \<times> real \<times> real" where
  "pixel_rgb (uchar3 r g b) = (real (unat r), real (unat g), real (unat b))"
| "pixel_rgb (uchar4 r g b a) = (real (unat r), real (unat g), real (unat b))"
| "pixel_rgb (float3 r g b) = (r, g, b)"
| "pixel_rgb (float4 r g b a) = (r, g, b)"

fun pixel_alpha :: "pixel \<Rightarrow> real option" where
  "pixel_alpha (uchar3 r g b) = None"
| "pixel_alpha (uchar4 r g b a) = Some (real (unat a))"
| "pixel_alpha (float3 r g b) = None"
| "pixel_alpha (float4 r g b a) = Some a"

subsection \<open>The kernel\<close>

text \<open>
  Lines 143 and 144: the coordinates of a thread. The arithmetic is that of
  \<open>unsigned int\<close>; the result is stored in an \<open>int\<close>, kept here as its 32-bit pattern.
\<close>

definition thread_x :: "dim3 \<Rightarrow> dim3 \<Rightarrow> dim3 \<Rightarrow> u32" where
  "thread_x blockIdx blockDim threadIdx =
     dim_x blockIdx * push_bit 1 (dim_x blockDim) + push_bit 1 (dim_x threadIdx)"

definition thread_y :: "dim3 \<Rightarrow> dim3 \<Rightarrow> dim3 \<Rightarrow> u32" where
  "thread_y blockIdx blockDim threadIdx =
     dim_y blockIdx * dim_y blockDim + dim_y threadIdx"

text \<open>
  Lines 190 to 196: the three 10-bit fields of a packed \<open>yuv101010Pel\<close> word.
\<close>

definition unpack_yuv :: "u32 \<Rightarrow> uint3" where
  "unpack_yuv pel =
     make_uint3 (pel AND COLOR_COMPONENT_MASK)
                (drop_bit COLOR_COMPONENT_BIT_SIZE pel AND COLOR_COMPONENT_MASK)
                (drop_bit (push_bit 1 COLOR_COMPONENT_BIT_SIZE) pel AND COLOR_COMPONENT_MASK)"

text \<open>
  Lines 152 to 196 of \<open>NV12ToRGBA\<close>, for a thread that has passed both guards: the two
  luma loads, the chroma loads of the even or odd scanline, and the two samples
  \<open>yuvi_0\<close> and \<open>yuvi_1\<close>. Every index is a 32-bit value (\<open>int\<close> operands are converted
  to \<open>unsigned int\<close>); \<open>y >> 1\<close> is the arithmetic shift of the \<open>int\<close> \<open>y\<close>; the
  comparison of \<open>y_chroma\<close> with \<open>(height >> 1) - 1\<close> is unsigned.
\<close>

definition NV12ToRGBA_yuv ::
  "(nat \<Rightarrow> u8) \<Rightarrow> u32 \<Rightarrow> u32 \<Rightarrow> u32 \<Rightarrow> u32 \<Rightarrow> (uint3 \<times> uint3) \<times> nat list" where
  "NV12ToRGBA_yuv srcImageU8 processingPitch height x y =
     (let l0 = unat (y * processingPitch + x);
          l1 = unat (y * processingPitch + x + 1);
          pel0 = push_bit 2 (ucast (srcImageU8 l0)) :: u32;
          pel1 = push_bit 2 (ucast (srcImageU8 l1)) :: u32;
          chromaOffset = processingPitch * height;
          y_chroma = signed_drop_bit 1 y;
          c0 = unat (chromaOffset + y_chroma * processingPitch + x);
          c1 = unat (chromaOffset + y_chroma * processingPitch + x + 1)
      in if y AND 1 \<noteq> 0 then
           (let chromaCb = ucast (srcImageU8 c0) :: u32;
                chromaCr = ucast (srcImageU8 c1) :: u32
            in if y_chroma < drop_bit 1 height - 1 then
                 (let n0 = unat (chromaOffset + (y_chroma + 1) * processingPitch + x);
                      n1 = unat (chromaOffset + (y_chroma + 1) * processingPitch + x + 1);
                      chromaCb' = drop_bit 1 (chromaCb + ucast (srcImageU8 n0) + 1);
                      chromaCr' = drop_bit 1 (chromaCr + ucast (srcImageU8 n1) + 1)
                  in ((unpack_yuv (pel0 OR push_bit (COLOR_COMPONENT_BIT_SIZE + 2) chromaCb'
                                        OR push_bit (push_bit 1 COLOR_COMPONENT_BIT_SIZE + 2) chromaCr'),
                       unpack_yuv (pel1 OR push_bit (COLOR_COMPONENT_BIT_SIZE + 2) chromaCb'
                                        OR push_bit (push_bit 1 COLOR_COMPONENT_BIT_SIZE + 2) chromaCr')),
                      [l0, l1, c0, c1, n0, n1]))
               else
                 ((unpack_yuv (pel0 OR push_bit (COLOR_COMPONENT_BIT_SIZE + 2) chromaCb
                                    OR push_bit (push_bit 1 COLOR_COMPONENT_BIT_SIZE + 2) chromaCr),
                   unpack_yuv (pel1 OR push_bit (COLOR_COMPONENT_BIT_SIZE + 2) chromaCb
                                    OR push_bit (push_bit 1 COLOR_COMPONENT_BIT_SIZE + 2) chromaCr)),
                  [l0, l1, c0, c1]))
         else
           ((unpack_yuv (pel0 OR push_bit (COLOR_COMPONENT_BIT_SIZE + 2) (ucast (srcImageU8 c0))
                              OR push_bit (push_bit 1 COLOR_COMPONENT_BIT_SIZE + 2) (ucast (srcImageU8 c1))),
             unpack_yuv (pel1 OR push_bit (COLOR_COMPONENT_BIT_SIZE + 2) (ucast (srcImageU8 c0))
                              OR push_bit (push_bit 1 COLOR_COMPONENT_BIT_SIZE + 2) (ucast (srcImageU8 c1)))),
            [l0, l1, c0, c1, c0, c1]))"

text \<open>
  \<open>NV12ToRGBA<T>\<close>, one thread. \<open>processingPitch\<close> is the \<open>size_t\<close> source pitch
  narrowed to 32 bits (its initial value, the width rounded up to 64, is overwritten before
  any use); the comparisons of the \<open>int\<close> coordinates with the unsigned
  \<open>width\<close> and \<open>height\<close> are unsigned. \<open>nDestPitch\<close> is a parameter of the kernel.
\<close>

definition NV12ToRGBA ::
  "(real \<Rightarrow> real \<Rightarrow> real \<Rightarrow> real \<Rightarrow> 'T) \<Rightarrow> (nat \<Rightarrow> u8) \<Rightarrow> size_t \<Rightarrow> size_t \<Rightarrow> u32 \<Rightarrow> u32
     \<Rightarrow> dim3 \<Rightarrow> dim3 \<Rightarrow> dim3 \<Rightarrow> 'T effect" where
  "NV12ToRGBA make_vec_T srcImageU8 nSourcePitch nDestPitch width height blockIdx blockDim threadIdx =
     (let processingPitch = ucast nSourcePitch :: u32;
          x = thread_x blockIdx blockDim threadIdx;
          y = thread_y blockIdx blockDim threadIdx
      in if width \<le> x then no_effect
         else if height \<le> y then no_effect
         else
           (let (yuvi, ls) = NV12ToRGBA_yuv srcImageU8 processingPitch height x y
            in \<lparr>loads = ls,
                stores = [(unat (y * width + x), YUV2RGB make_vec_T (fst yuvi)),
                          (unat (y * width + x + 1), YUV2RGB make_vec_T (snd yuvi))]\<rparr>))"

text \<open>
  \<open>RGBAPACK_8bit\<close> and the kernel \<open>Passthru\<close> of the same file, which copies the luma
  to a grey 32-bit pixel. The conversion of a clamped \<open>float\<close> to \<open>uint32_t\<close> drops the
  fraction. \<open>Passthru\<close> strides the destination by \<open>dstImagePitch = nDestPitch >> 2\<close>.
\<close>

definition RGBAPACK_8bit :: "real \<Rightarrow> real \<Rightarrow> real \<Rightarrow> u32 \<Rightarrow> u32" where
  "RGBAPACK_8bit red green blue alpha =
     (let red' = min (max red 0) 255;
          green' = min (max green 0) 255;
          blue' = min (max blue 0) 255
      in push_bit 24 (word_of_int \<lfloor>red'\<rfloor>) OR push_bit 16 (word_of_int \<lfloor>green'\<rfloor>)
           OR push_bit 8 (word_of_int \<lfloor>blue'\<rfloor>) OR alpha)"

definition Passthru ::
  "(nat \<Rightarrow> u8) \<Rightarrow> size_t \<Rightarrow> size_t \<Rightarrow> u32 \<Rightarrow> u32 \<Rightarrow> dim3 \<Rightarrow> dim3 \<Rightarrow> dim3 \<Rightarrow> u32 effect" where
  "Passthru srcImageU8 nSourcePitch nDestPitch width height blockIdx blockDim threadIdx =
     (let dstImagePitch = ucast (drop_bit 2 nDestPitch) :: u32;
          processingPitch = ucast nSourcePitch :: u32;
          x = thread_x blockIdx blockDim threadIdx;
          y = thread_y blockIdx blockDim threadIdx
      in if width \<le> x then no_effect
         else if height \<le> y then no_effect
         else
           (let l0 = unat (y * processingPitch + x);
                l1 = unat (y * processingPitch + x + 1);
                pel0 = ucast (srcImageU8 l0) :: u32;
                pel1 = ucast (srcImageU8 l1) :: u32;
                luma0 = real (unat (pel0 AND 0xFF));
                luma1 = real (unat (pel1 AND 0xFF))
            in \<lparr>loads = [l0, l1],
                stores = [(unat (y * dstImagePitch + x), RGBAPACK_8bit luma0 luma0 luma0 255),
                          (unat (y * dstImagePitch + x + 1),
                           RGBAPACK_8bit luma1 luma1 luma1 255)]\<rparr>))"

subsection \<open>The launch\<close>

text \<open>
  Modelled from the spec: \<open>iDivUp\<close> (cudaUtility.h) is not part of the sources at hand;
  the spec describes the grid size as a ceiling of a quotient.
\<close>

definition iDivUp :: "nat \<Rightarrow> nat \<Rightarrow> nat" where
  "iDivUp a b = nat \<lceil>real a / real b\<rceil>"

text \<open>Lines 213 and 214: the block and the grid of the launch.\<close>

definition launch_blockDim :: dim3 where
  "launch_blockDim = dim3 32 8 1"

definition launch_gridDim :: "size_t \<Rightarrow> size_t \<Rightarrow> dim3" where
  "launch_gridDim width height =
     dim3 (of_nat (iDivUp (unat width) (unat (dim_x launch_blockDim))))
          (of_nat (iDivUp (unat height) (unat (dim_y launch_blockDim)))) 1"

text \<open>
  The threads of a launch \<open><<<gridDim, blockDim>>>\<close>: one for every block index below
  \<open>gridDim\<close> and every thread index below \<open>blockDim\<close> (grid and block of the launch here
  have depth 1, so the z index is 0).
\<close>

definition grid_threads :: "dim3 \<Rightarrow> dim3 \<Rightarrow> (dim3 \<times> dim3) list" where
  "grid_threads gridDim blockDim =
     concat (map (\<lambda>by. concat (map (\<lambda>bx. concat (map (\<lambda>ty. map (\<lambda>tx.
        (dim3 (of_nat bx) (of_nat by) 0, dim3 (of_nat tx) (of_nat ty) 0))
        [0..<unat (dim_x blockDim)]) [0..<unat (dim_y blockDim)]))
        [0..<unat (dim_x gridDim)])) [0..<unat (dim_y gridDim)])"

text \<open>
  \<open>launchNV12ToRGBA<T>\<close>. Pointers are addresses, 0 the null pointer; \<open>mem\<close> is the
  device memory, so that \<open>srcImageU8[i]\<close> is the byte at \<open>srcDev + i\<close>. The result is the
  error code and the effects of the threads dispatched. \<open>lastError\<close> is what
  \<open>cudaGetLastError\<close> reports after the launch.
\<close>

definition launchNV12ToRGBA ::
  "cudaError \<Rightarrow> (real \<Rightarrow> real \<Rightarrow> real \<Rightarrow> real \<Rightarrow> 'T) \<Rightarrow> (nat \<Rightarrow> u8)
     \<Rightarrow> size_t \<Rightarrow> size_t \<Rightarrow> size_t \<Rightarrow> size_t \<Rightarrow> size_t \<Rightarrow> size_t
     \<Rightarrow> cudaError \<times> 'T effect list" where
  "launchNV12ToRGBA lastError make_vec_T mem srcDev srcPitch destDev destPitch width height =
     (if srcDev = 0 \<or> destDev = 0 then (cudaErrorInvalidDevicePointer, [])
      else if srcPitch = 0 \<or> destPitch = 0 \<or> width = 0 \<or> height = 0
        then (cudaErrorInvalidValue, [])
      else
        (let blockDim = launch_blockDim;
             gridDim = launch_gridDim width height
         in (lastError,
             map (\<lambda>(blockIdx, threadIdx).
                    NV12ToRGBA make_vec_T (\<lambda>i. mem (unat srcDev + i)) srcPitch destPitch
                      (ucast width) (ucast height) blockIdx blockDim threadIdx)
                 (grid_threads gridDim blockDim))))"

text \<open>
  Lines 223 to 262: the entry points with explicit pitches, one per pixel type. The C++
  overloads \<open>cudaNV12ToRGB\<close> and \<open>cudaNV12ToRGBA\<close> are told apart by the type of the
  destination pointer; here by a suffix.
\<close>

definition cudaNV12ToRGB_uchar3 ::
  "cudaError \<Rightarrow> (nat \<Rightarrow> u8) \<Rightarrow> size_t \<Rightarrow> size_t \<Rightarrow> size_t \<Rightarrow> size_t \<Rightarrow> size_t \<Rightarrow> size_t
     \<Rightarrow> cudaError \<times> pixel effect list" where
  "cudaNV12ToRGB_uchar3 lastError mem srcDev srcPitch destDev destPitch width height =
     launchNV12ToRGBA lastError (make_vec T_uchar3) mem srcDev srcPitch destDev destPitch width height"

definition cudaNV12ToRGB_float3 ::
  "cudaError \<Rightarrow> (nat \<Rightarrow> u8) \<Rightarrow> size_t \<Rightarrow> size_t \<Rightarrow> size_t \<Rightarrow> size_t \<Rightarrow> size_t \<Rightarrow> size_t
     \<Rightarrow> cudaError \<times> pixel effect list" where
  "cudaNV12ToRGB_float3 lastError mem srcDev srcPitch destDev destPitch width height =
     launchNV12ToRGBA lastError (make_vec T_float3) mem srcDev srcPitch destDev destPitch width height"

definition cudaNV12ToRGBA_uchar4 ::
  "cudaError \<Rightarrow> (nat \<Rightarrow> u8) \<Rightarrow> size_t \<Rightarrow> size_t \<Rightarrow> size_t \<Rightarrow> size_t \<Rightarrow> size_t \<Rightarrow> size_t
     \<Rightarrow> cudaError \<times> pixel effect list" where
  "cudaNV12ToRGBA_uchar4 lastError mem srcDev srcPitch destDev destPitch width height =
     launchNV12ToRGBA lastError (make_vec T_uchar4) mem srcDev srcPitch destDev destPitch width height"

definition cudaNV12ToRGBA_float4 ::
  "cudaError \<Rightarrow> (nat \<Rightarrow> u8) \<Rightarrow> size_t \<Rightarrow> size_t \<Rightarrow> size_t \<Rightarrow> size_t \<Rightarrow> size_t \<Rightarrow> size_t
     \<Rightarrow> cudaError \<times> pixel effect list" where
  "cudaNV12ToRGBA_float4 lastError mem srcDev srcPitch destDev destPitch width height =
     launchNV12ToRGBA lastError (make_vec T_float4) mem srcDev srcPitch destDev destPitch width height"

subsection \<open>The transform as the specification words it\<close>

text \<open>
  The specification's formula, on a luma \<open>Y\<close> and chroma \<open>Cb\<close>, \<open>Cr\<close> already centred at 0:
  \<open>scale = 255/1024\<close>, \<open>R = clamp((Y + 1.140 Cr) scale, 0, 255)\<close>,
  \<open>G = clamp((Y - 0.395 Cb - 0.581 Cr) scale, 0, 255)\<close>,
  \<open>B = clamp((Y + 2.032 Cb) scale, 0, 255)\<close>.
\<close>

definition spec_clamp :: "real \<Rightarrow> real \<Rightarrow> real \<Rightarrow> real" where
  "spec_clamp v lo hi = (if v < lo then lo else if hi < v then hi else v)"

definition spec_rgb :: "real \<Rightarrow> real \<Rightarrow> real \<Rightarrow> real \<times> real \<times> real" where
  "spec_rgb Y Cb Cr =
     (let scale = 255 / 1024
      in (spec_clamp ((Y + 1.140 * Cr) * scale) 0 255,
          spec_clamp ((Y - 0.395 * Cb - 0.581 * Cr) * scale) 0 255,
          spec_clamp ((Y + 2.032 * Cb) * scale) 0 255))"

text \<open>The part of an effect that does not involve the alpha channel.\<close>

definition rgb_effect :: "pixel effect \<Rightarrow> nat list \<times> (nat \<times> real \<times> real \<times> real) list" where
  "rgb_effect e = (loads e, map (\<lambda>(i, p). (i, pixel_rgb p)) (stores e))"

section \<open>Validation by the launch wrapper\<close>

text \<open>
  C3. A null source or destination pointer gives the invalid-pointer error; otherwise a
  zero source pitch, destination pitch, width or height gives the invalid-argument error.
  In both cases no thread is dispatched: the list of effects is empty, so no byte of the
  source is loaded and no element of the destination is stored.
\<close>

theorem launch_validation:
  "(srcDev = 0 \<or> destDev = 0 \<longrightarrow>
      launchNV12ToRGBA lastError make_vec_T mem srcDev srcPitch destDev destPitch width height
        = (cudaErrorInvalidDevicePointer, []))
   \<and> (srcDev \<noteq> 0 \<and> destDev \<noteq> 0 \<and> (srcPitch = 0 \<or> destPitch = 0 \<or> width = 0 \<or> height = 0) \<longrightarrow>
      launchNV12ToRGBA lastError make_vec_T mem srcDev srcPitch destDev destPitch width height
        = (cudaErrorInvalidValue, []))"
  by (simp add: launchNV12ToRGBA_def)

theorem launch_validation_witness:
  "launchNV12ToRGBA cudaSuccess (\<lambda>r g b a. (r, g, b, a)) (\<lambda>i. 0) 0 4 4096 16 4 2
     = (cudaErrorInvalidDevicePointer, [])
   \<and> launchNV12ToRGBA cudaSuccess (\<lambda>r g b a. (r, g, b, a)) (\<lambda>i. 0) 1024 4 4096 16 0 2
     = (cudaErrorInvalidValue, [])"
  using launch_validation [where srcDev = 0 and destDev = 4096 and srcPitch = 4
          and destPitch = 16 and width = 4 and height = 2 and lastError = cudaSuccess
          and make_vec_T = "\<lambda>r g b a. (r, g, b, a)" and mem = "\<lambda>i. 0"]
        launch_validation [where srcDev = 1024 and destDev = 4096 and srcPitch = 4
          and destPitch = 16 and width = 0 and height = 2 and lastError = cudaSuccess
          and make_vec_T = "\<lambda>r g b a. (r, g, b, a)" and mem = "\<lambda>i. 0"]
  by simp

section \<open>Chroma reconstruction\<close>

subsection \<open>Packing and unpacking of the 10-bit fields\<close>

lemma mask10: "(1023 :: u32) = mask 10"
  by (simp add: mask_eq_exp_minus_1)

lemma unpack_pack:
  fixes l cb cr :: u8
  shows "unpack_yuv (push_bit 2 (ucast l) OR push_bit 12 (ucast cb) OR push_bit 22 (ucast cr))
         = make_uint3 (push_bit 2 (ucast l)) (push_bit 2 (ucast cb)) (push_bit 2 (ucast cr))"
  unfolding unpack_yuv_def COLOR_COMPONENT_BIT_SIZE_def COLOR_COMPONENT_MASK_def
  apply (simp add: mask10)
  apply (intro conjI bit_word_eqI)
  apply (auto simp add: bit_simps dest: bit_imp_le_length)
  done

lemma byte_bound: "unat (a :: u8) < 256"
  using unsigned_less [of a, where 'a = nat] by simp

lemma unat_of_nat32: "n < 2 ^ 32 \<Longrightarrow> unat (of_nat n :: u32) = n"
  by (simp add: unat_of_nat)

lemma avg_nat:
  fixes a b :: u8
  shows "unat (drop_bit 1 (ucast a + ucast b + 1 :: u32)) = (unat a + unat b + 1) div 2"
proof -
  have "(ucast a + ucast b + 1 :: u32) = of_nat (unat a + unat b + 1)"
    by simp
  moreover have "unat a + unat b + 1 < 2 ^ 32"
    using byte_bound [of a] byte_bound [of b] by simp
  ultimately have "unat (ucast a + ucast b + 1 :: u32) = unat a + unat b + 1"
    using unat_of_nat32 by metis
  then show ?thesis 
    by (simp add: unat_drop_bit_eq drop_bit_eq_div unat_div_distrib)
qed

lemma avg_byte:
  fixes a b :: u8
  shows "drop_bit 1 (ucast a + ucast b + 1 :: u32) = ucast (of_nat ((unat a + unat b + 1) div 2) :: u8)"
proof -
  have "(unat a + unat b + 1) div 2 < 256" 
    using byte_bound [of a] byte_bound [of b] by simp
  then have "unat (ucast (of_nat ((unat a + unat b + 1) div 2) :: u8) :: u32) = (unat a + unat b + 1) div 2"
    by (simp add: unsigned_ucast_eq unat_of_nat take_bit_eq_mod)
  then show ?thesis using avg_nat [of a b] by (metis word_unat_eq_iff)
qed

lemma unpack_pack_avg:
  fixes l a b c d :: u8
  shows "unpack_yuv (push_bit 2 (ucast l) OR push_bit 12 (drop_bit 1 (ucast a + ucast b + 1))
            OR push_bit 22 (drop_bit 1 (ucast c + ucast d + 1)))
         = make_uint3 (push_bit 2 (ucast l)) (push_bit 2 (drop_bit 1 (ucast a + ucast b + 1)))
             (push_bit 2 (drop_bit 1 (ucast c + ucast d + 1)))"
  unfolding avg_byte by (rule unpack_pack)

text \<open>The column of a thread is even, whatever its block and thread index.\<close>

lemma even_unat_iff: "even (unat (w :: u32)) \<longleftrightarrow> even w"
proof -
  have "bit (unat w) 0 \<longleftrightarrow> bit w 0" by (simp add: bit_unsigned_iff)
  then show ?thesis by (simp add: bit_0)
qed

lemma thread_x_even: "even (unat (thread_x blockIdx blockDim threadIdx))"
proof -
  have "thread_x blockIdx blockDim threadIdx
          = 2 * (dim_x blockIdx * dim_x blockDim + dim_x threadIdx)"
    by (simp add: thread_x_def push_bit_eq_mult algebra_simps)
  then have "even (thread_x blockIdx blockDim threadIdx)" by simp
  then show ?thesis by (simp only: even_unat_iff)
qed

subsection \<open>Even scanlines\<close>

text \<open>
  C6. The column \<open>x\<close> of a thread is even. A thread that passes both guards on an even
  scanline \<open>y\<close> loads the two luma bytes
  and the chroma bytes at \<open>chromaOffset + (y >> 1) * pitch + x\<close> and \<open>\<dots> + x + 1\<close>, where
  \<open>chromaOffset = pitch * height\<close> is the origin of the chroma plane in the one source
  buffer. Both pixels \<open>(x, y)\<close> and \<open>(x + 1, y)\<close> are converted from the sample whose Cb
  and Cr fields are these two raw bytes, each shifted left by 2 into the 10-bit scale: no
  other byte is loaded and nothing is averaged. All index arithmetic is that of the
  kernel's 32-bit \<open>unsigned int\<close>.
\<close>

theorem even_row_chroma:
  fixes blockIdx blockDim threadIdx :: dim3 and nSourcePitch :: size_t
    and height x y pitch :: u32 and c0 c1 :: nat
  defines "x \<equiv> thread_x blockIdx blockDim threadIdx"
      and "y \<equiv> thread_y blockIdx blockDim threadIdx"
      and "pitch \<equiv> ucast nSourcePitch"
  defines "c0 \<equiv> unat (pitch * height + signed_drop_bit 1 y * pitch + x)"
      and "c1 \<equiv> unat (pitch * height + signed_drop_bit 1 y * pitch + x + 1)"
  assumes "x < width" and "y < height" and "y AND 1 = 0"
  shows "even (unat x) \<and>
         NV12ToRGBA make_vec_T srcImageU8 nSourcePitch nDestPitch width height
           blockIdx blockDim threadIdx =
         \<lparr>loads = [unat (y * pitch + x), unat (y * pitch + x + 1), c0, c1, c0, c1],
          stores =
            [(unat (y * width + x),
              YUV2RGB make_vec_T
                (make_uint3 (push_bit 2 (ucast (srcImageU8 (unat (y * pitch + x)))))
                            (push_bit 2 (ucast (srcImageU8 c0)))
                            (push_bit 2 (ucast (srcImageU8 c1))))),
             (unat (y * width + x + 1),
              YUV2RGB make_vec_T
                (make_uint3 (push_bit 2 (ucast (srcImageU8 (unat (y * pitch + x + 1)))))
                            (push_bit 2 (ucast (srcImageU8 c0)))
                            (push_bit 2 (ucast (srcImageU8 c1)))))]\<rparr>"
  using assms(6-8) thread_x_even [of blockIdx blockDim threadIdx]
  unfolding NV12ToRGBA_def NV12ToRGBA_yuv_def Let_def assms(1-5)
  by (simp add: unpack_pack COLOR_COMPONENT_BIT_SIZE_def not_le [symmetric])

theorem even_row_chroma_witness:
  "thread_x (dim3 0 0 0) (dim3 32 8 1) (dim3 1 0 0) < 4
   \<and> thread_y (dim3 0 0 0) (dim3 32 8 1) (dim3 1 0 0) < 2
   \<and> thread_y (dim3 0 0 0) (dim3 32 8 1) (dim3 1 0 0) AND 1 = 0
   \<and> even (unat (thread_x (dim3 0 0 0) (dim3 32 8 1) (dim3 1 0 0)))
   \<and> NV12ToRGBA (make_vec T_float4) (\<lambda>i. if i < 8 then 16 else if i < 10 then 100 else 200)
         4 16 4 2 (dim3 0 0 0) (dim3 32 8 1) (dim3 1 0 0) =
       \<lparr>loads = [2, 3, 10, 11, 10, 11],
        stores = [(2, YUV2RGB (make_vec T_float4) (make_uint3 64 800 800)),
                  (3, YUV2RGB (make_vec T_float4) (make_uint3 64 800 800))]\<rparr>"
  using even_row_chroma [where blockIdx = "dim3 0 0 0" and blockDim = "dim3 32 8 1"
      and threadIdx = "dim3 1 0 0" and width = 4 and height = 2 and nSourcePitch = 4
      and nDestPitch = 16 and make_vec_T = "make_vec T_float4"
      and ?srcImageU8.0 = "\<lambda>i. if i < 8 then 16 else if i < 10 then 100 else 200"]
  by (simp add: thread_x_def thread_y_def)

subsection \<open>Odd scanlines\<close>

text \<open>
  C5. A thread that passes both guards on an odd scanline \<open>y\<close>, with chroma row
  \<open>row = y >> 1\<close>: when \<open>row < (height >> 1) - 1\<close> it loads the chroma bytes \<open>a\<close> of row
  \<open>row\<close> and \<open>b\<close> of row \<open>row + 1\<close> and converts both pixels from the sample whose Cb and
  Cr are \<open>(a + b + 1) >> 1\<close> (as a number, \<open>(a + b + 1) div 2\<close>), shifted left by 2 into
  the 10-bit scale; otherwise it loads only the chroma bytes of row \<open>row\<close> (four loads in
  all, none from a following chroma row) and converts both pixels from these raw bytes.
\<close>

theorem odd_row_chroma:
  fixes blockIdx blockDim threadIdx :: dim3 and nSourcePitch :: size_t
    and height x y pitch row :: u32 and c0 c1 n0 n1 :: nat
  defines "x \<equiv> thread_x blockIdx blockDim threadIdx"
      and "y \<equiv> thread_y blockIdx blockDim threadIdx"
      and "pitch \<equiv> ucast nSourcePitch"
  defines "row \<equiv> signed_drop_bit 1 y"
  defines "c0 \<equiv> unat (pitch * height + row * pitch + x)"
      and "c1 \<equiv> unat (pitch * height + row * pitch + x + 1)"
      and "n0 \<equiv> unat (pitch * height + (row + 1) * pitch + x)"
      and "n1 \<equiv> unat (pitch * height + (row + 1) * pitch + x + 1)"
  assumes "x < width" and "y < height" and "y AND 1 = 1"
  shows "(row < drop_bit 1 height - 1 \<longrightarrow>
           NV12ToRGBA make_vec_T srcImageU8 nSourcePitch nDestPitch width height
             blockIdx blockDim threadIdx =
           \<lparr>loads = [unat (y * pitch + x), unat (y * pitch + x + 1), c0, c1, n0, n1],
            stores =
              [(unat (y * width + x),
                YUV2RGB make_vec_T
                  (make_uint3 (push_bit 2 (ucast (srcImageU8 (unat (y * pitch + x)))))
                     (push_bit 2 (drop_bit 1 (ucast (srcImageU8 c0) + ucast (srcImageU8 n0) + 1)))
                     (push_bit 2 (drop_bit 1 (ucast (srcImageU8 c1) + ucast (srcImageU8 n1) + 1))))),
               (unat (y * width + x + 1),
                YUV2RGB make_vec_T
                  (make_uint3 (push_bit 2 (ucast (srcImageU8 (unat (y * pitch + x + 1)))))
                     (push_bit 2 (drop_bit 1 (ucast (srcImageU8 c0) + ucast (srcImageU8 n0) + 1)))
                     (push_bit 2 (drop_bit 1 (ucast (srcImageU8 c1) + ucast (srcImageU8 n1) + 1)))))]\<rparr>
           \<and> unat (drop_bit 1 (ucast (srcImageU8 c0) + ucast (srcImageU8 n0) + 1 :: u32))
               = (unat (srcImageU8 c0) + unat (srcImageU8 n0) + 1) div 2
           \<and> unat (drop_bit 1 (ucast (srcImageU8 c1) + ucast (srcImageU8 n1) + 1 :: u32))
               = (unat (srcImageU8 c1) + unat (srcImageU8 n1) + 1) div 2)
       \<and> (\<not> row < drop_bit 1 height - 1 \<longrightarrow>
           NV12ToRGBA make_vec_T srcImageU8 nSourcePitch nDestPitch width height
             blockIdx blockDim threadIdx =
           \<lparr>loads = [unat (y * pitch + x), unat (y * pitch + x + 1), c0, c1],
            stores =
              [(unat (y * width + x),
                YUV2RGB make_vec_T
                  (make_uint3 (push_bit 2 (ucast (srcImageU8 (unat (y * pitch + x)))))
                     (push_bit 2 (ucast (srcImageU8 c0)))
                     (push_bit 2 (ucast (srcImageU8 c1))))),
               (unat (y * width + x + 1),
                YUV2RGB make_vec_T
                  (make_uint3 (push_bit 2 (ucast (srcImageU8 (unat (y * pitch + x + 1)))))
                     (push_bit 2 (ucast (srcImageU8 c0)))
                     (push_bit 2 (ucast (srcImageU8 c1)))))]\<rparr>)"
proof (intro conjI impI)
  assume "row < drop_bit 1 height - 1"
  then show "NV12ToRGBA make_vec_T srcImageU8 nSourcePitch nDestPitch width height
             blockIdx blockDim threadIdx =
           \<lparr>loads = [unat (y * pitch + x), unat (y * pitch + x + 1), c0, c1, n0, n1],
            stores =
              [(unat (y * width + x),
                YUV2RGB make_vec_T
                  (make_uint3 (push_bit 2 (ucast (srcImageU8 (unat (y * pitch + x)))))
                     (push_bit 2 (drop_bit 1 (ucast (srcImageU8 c0) + ucast (srcImageU8 n0) + 1)))
                     (push_bit 2 (drop_bit 1 (ucast (srcImageU8 c1) + ucast (srcImageU8 n1) + 1))))),
               (unat (y * width + x + 1),
                YUV2RGB make_vec_T
                  (make_uint3 (push_bit 2 (ucast (srcImageU8 (unat (y * pitch + x + 1)))))
                     (push_bit 2 (drop_bit 1 (ucast (srcImageU8 c0) + ucast (srcImageU8 n0) + 1)))
                     (push_bit 2 (drop_bit 1 (ucast (srcImageU8 c1) + ucast (srcImageU8 n1) + 1)))))]\<rparr>"
    using assms(9-11)
    unfolding NV12ToRGBA_def NV12ToRGBA_yuv_def Let_def assms(1-8) COLOR_COMPONENT_BIT_SIZE_def
    by (simp add: unpack_pack_avg [unfolded One_nat_def] not_le [symmetric])
next
  assume "\<not> row < drop_bit 1 height - 1"
  then show "NV12ToRGBA make_vec_T srcImageU8 nSourcePitch nDestPitch width height
             blockIdx blockDim threadIdx =
           \<lparr>loads = [unat (y * pitch + x), unat (y * pitch + x + 1), c0, c1],
            stores =
              [(unat (y * width + x),
                YUV2RGB make_vec_T
                  (make_uint3 (push_bit 2 (ucast (srcImageU8 (unat (y * pitch + x)))))
                     (push_bit 2 (ucast (srcImageU8 c0)))
                     (push_bit 2 (ucast (srcImageU8 c1))))),
               (unat (y * width + x + 1),
                YUV2RGB make_vec_T
                  (make_uint3 (push_bit 2 (ucast (srcImageU8 (unat (y * pitch + x + 1)))))
                     (push_bit 2 (ucast (srcImageU8 c0)))
                     (push_bit 2 (ucast (srcImageU8 c1)))))]\<rparr>"
    using assms(9-11)
    unfolding NV12ToRGBA_def NV12ToRGBA_yuv_def Let_def assms(1-8) COLOR_COMPONENT_BIT_SIZE_def
    by (simp add: unpack_pack not_le [symmetric])
qed (rule avg_nat)+

theorem odd_row_chroma_witness:
  "thread_x (dim3 0 0 0) (dim3 32 8 1) (dim3 1 1 0) < 4
   \<and> thread_y (dim3 0 0 0) (dim3 32 8 1) (dim3 1 1 0) < 4
   \<and> thread_y (dim3 0 0 0) (dim3 32 8 1) (dim3 1 1 0) AND 1 = 1
   \<and> NV12ToRGBA (make_vec T_float4) (\<lambda>i. if i < 16 then 16 else if i < 20 then 10 else 11)
         4 16 4 4 (dim3 0 0 0) (dim3 32 8 1) (dim3 1 1 0) =
       \<lparr>loads = [6, 7, 18, 19, 22, 23],
        stores = [(6, YUV2RGB (make_vec T_float4) (make_uint3 64 44 44)),
                  (7, YUV2RGB (make_vec T_float4) (make_uint3 64 44 44))]\<rparr>
   \<and> thread_y (dim3 0 0 0) (dim3 32 8 1) (dim3 1 3 0) < 4
   \<and> thread_y (dim3 0 0 0) (dim3 32 8 1) (dim3 1 3 0) AND 1 = 1
   \<and> NV12ToRGBA (make_vec T_float4) (\<lambda>i. if i < 16 then 16 else if i < 20 then 10 else 11)
         4 16 4 4 (dim3 0 0 0) (dim3 32 8 1) (dim3 1 3 0) =
       \<lparr>loads = [14, 15, 22, 23],
        stores = [(14, YUV2RGB (make_vec T_float4) (make_uint3 64 44 44)),
                  (15, YUV2RGB (make_vec T_float4) (make_uint3 64 44 44))]\<rparr>"
  using odd_row_chroma [where blockIdx = "dim3 0 0 0" and blockDim = "dim3 32 8 1"
      and threadIdx = "dim3 1 1 0" and width = 4 and height = 4 and nSourcePitch = 4
      and nDestPitch = 16 and make_vec_T = "make_vec T_float4"
      and ?srcImageU8.0 = "\<lambda>i. if i < 16 then 16 else if i < 20 then 10 else 11"]
    odd_row_chroma [where blockIdx = "dim3 0 0 0" and blockDim = "dim3 32 8 1"
      and threadIdx = "dim3 1 3 0" and width = 4 and height = 4 and nSourcePitch = 4
      and nDestPitch = 16 and make_vec_T = "make_vec T_float4"
      and ?srcImageU8.0 = "\<lambda>i. if i < 16 then 16 else if i < 20 then 10 else 11"]
  by (simp add: thread_x_def thread_y_def)

section \<open>Colour conversion\<close>

subsection \<open>Rounding to binary32\<close>

text \<open>
  \<open>float_exponent x\<close> is the binary exponent of \<open>x\<close>. The rounding error of \<open>float32\<close> is at
  most half a unit in the last place: for a number of magnitude at most \<open>M\<close> it is at most
  \<open>M / 2 ^ 24\<close>. Integers below \<open>2 ^ 24\<close> in magnitude are not changed.
\<close>

lemma rne_error: "\<bar>of_int (rne y) - y\<bar> \<le> 1 / 2"
  unfolding rne_def Let_def by (auto simp: abs_if; linarith)

lemma float_exponent_lower:
  assumes "x \<noteq> 0"
  shows "2 powi (float_exponent x) \<le> \<bar>x\<bar>"
proof (cases "1 \<le> \<bar>x\<bar>")
  case True
  define n where "n = nat \<lfloor>\<bar>x\<bar>\<rfloor>"
  have n: "0 < n" "real n \<le> \<bar>x\<bar>" using True unfolding n_def by (simp, linarith)
  have fl: "0 < floorlog 2 n" using n by (simp add: floorlog_def)
  have "2 ^ (floorlog 2 n - 1) \<le> n" using floorlog_bounds [of n 2] n by simp
  then have "real (2 ^ (floorlog 2 n - 1)) \<le> real n" by (rule of_nat_mono)
  moreover have "real (2 ^ (floorlog 2 n - 1)) = 2 ^ (floorlog 2 n - 1)" by simp
  ultimately have "(2::real) ^ (floorlog 2 n - 1) \<le> \<bar>x\<bar>" using n(2) by linarith
  moreover have "float_exponent x = int (floorlog 2 n - 1)"
    using True fl by (simp add: float_exponent_def n_def)
  ultimately show ?thesis by (simp add: power_int_def)
next
  case False
  define m where "m = nat \<lceil>1 / \<bar>x\<bar>\<rceil> - 1"
  have x: "0 < \<bar>x\<bar>" "\<bar>x\<bar> < 1" using False assms by simp_all
  then have "1 < 1 / \<bar>x\<bar>" by simp
  then have c: "2 \<le> \<lceil>1 / \<bar>x\<bar>\<rceil>" by linarith
  have "1 / \<bar>x\<bar> \<le> of_int \<lceil>1 / \<bar>x\<bar>\<rceil>" by linarith
  also have "\<dots> = real m + 1"
  proof -
    have "\<lceil>1 / \<bar>x\<bar>\<rceil> = int m + 1" using c unfolding m_def by linarith
    then show ?thesis by simp
  qed
  finally have m1: "1 / \<bar>x\<bar> \<le> real m + 1" .
  have m0: "0 < m" using c unfolding m_def by simp
  have "m < 2 ^ floorlog 2 m" using floorlog_bounds [of m 2] m0 by simp
  then have "m + 1 \<le> 2 ^ floorlog 2 m" by simp
  then have "real (m + 1) \<le> real (2 ^ floorlog 2 m)" by (rule of_nat_mono)
  then have "real m + 1 \<le> 2 ^ floorlog 2 m" by simp
  with m1 have "1 / \<bar>x\<bar> \<le> 2 ^ floorlog 2 m" by linarith
  then have "1 \<le> 2 ^ floorlog 2 m * \<bar>x\<bar>" using x by (simp add: field_simps)
  then have "1 / 2 ^ floorlog 2 m \<le> \<bar>x\<bar>" by (simp add: field_simps)
  moreover have "float_exponent x = - int (floorlog 2 m)"
    using False by (simp add: float_exponent_def m_def)
  ultimately show ?thesis by (auto simp add: power_int_def field_simps)
qed

lemma float_exponent_upper:
  assumes "x \<noteq> 0"
  shows "\<bar>x\<bar> < 2 powi (float_exponent x + 1)"
proof (cases "1 \<le> \<bar>x\<bar>")
  case True
  define n where "n = nat \<lfloor>\<bar>x\<bar>\<rfloor>"
  have n: "0 < n" "\<bar>x\<bar> < real n + 1" using True unfolding n_def by (simp, linarith)
  have fl: "0 < floorlog 2 n" using n by (simp add: floorlog_def)
  have "n < 2 ^ floorlog 2 n" using floorlog_bounds [of n 2] n by simp
  then have "n + 1 \<le> 2 ^ floorlog 2 n" by simp
  then have "real (n + 1) \<le> real (2 ^ floorlog 2 n)" by (rule of_nat_mono)
  then have "real n + 1 \<le> 2 ^ floorlog 2 n" by simp
  then have "\<bar>x\<bar> < 2 ^ floorlog 2 n" using n(2) by linarith
  moreover have "float_exponent x + 1 = int (floorlog 2 n)"
    using True fl by (simp add: float_exponent_def n_def)
  ultimately show ?thesis by (simp add: power_int_def)
next
  case False
  define m where "m = nat \<lceil>1 / \<bar>x\<bar>\<rceil> - 1"
  define fl where "fl = floorlog 2 m"
  have x: "0 < \<bar>x\<bar>" "\<bar>x\<bar> < 1" using False assms by simp_all
  then have "1 < 1 / \<bar>x\<bar>" by simp
  then have c: "2 \<le> \<lceil>1 / \<bar>x\<bar>\<rceil>" by linarith
  have "\<lceil>1 / \<bar>x\<bar>\<rceil> = int m + 1" using c unfolding m_def by linarith
  then have "real_of_int \<lceil>1 / \<bar>x\<bar>\<rceil> = real m + 1" by simp
  moreover have "real_of_int \<lceil>1 / \<bar>x\<bar>\<rceil> < 1 / \<bar>x\<bar> + 1" by linarith
  ultimately have m1: "real m < 1 / \<bar>x\<bar>" by linarith
  have m0: "0 < m" using c unfolding m_def by simp
  then have fl0: "0 < fl" unfolding fl_def by (simp add: floorlog_def)
  have "2 ^ (fl - 1) \<le> m" using floorlog_bounds [of m 2] m0 unfolding fl_def by simp
  then have "real (2 ^ (fl - 1)) \<le> real m" by (rule of_nat_mono)
  moreover have "real (2 ^ (fl - 1)) = 2 ^ (fl - 1)" by simp
  ultimately have "2 ^ (fl - 1) < 1 / \<bar>x\<bar>" using m1 by linarith
  then have "\<bar>x\<bar> * 2 ^ (fl - 1) < 1" using x by (simp add: field_simps)
  then have lt: "\<bar>x\<bar> < 1 / 2 ^ (fl - 1)" by (simp add: field_simps)
  have "float_exponent x + 1 = - int (fl - 1)"
    using False fl0 unfolding float_exponent_def fl_def m_def by simp
  moreover have "(2::real) powi (- int j) = 1 / 2 ^ j" for j
    by (simp add: power_int_def power_one_over)
  ultimately show ?thesis using lt by (simp only:)
qed

lemma float32_error:
  assumes "\<bar>x\<bar> \<le> M" and "1 / 2 ^ 126 \<le> M"
  shows "\<bar>float32 x - x\<bar> \<le> M / 2 ^ 24"
proof (cases "x = 0")
  case True
  then show ?thesis using assms by (simp add: float32_def)
next
  case False
  define e where "e = max (float_exponent x) (- 126)"
  define q :: real where "q = 2 powi (e - 23)"
  have q: "0 < q" unfolding q_def by simp
  have f: "float32 x = of_int (rne (x / q)) * q"
    using False by (simp add: float32_def Let_def e_def q_def)
  have "\<bar>of_int (rne (x / q)) - x / q\<bar> * q \<le> 1 / 2 * q"
    using rne_error [of "x / q"] q by (intro mult_right_mono) simp_all
  moreover have "\<bar>of_int (rne (x / q)) - x / q\<bar> * q = \<bar>float32 x - x\<bar>"
  proof -
    have "float32 x - x = (of_int (rne (x / q)) - x / q) * q"
      using q unfolding f by (simp add: field_simps)
    then show ?thesis using q by (simp add: abs_mult)
  qed
  ultimately have err: "\<bar>float32 x - x\<bar> \<le> q / 2" by simp
  have q2: "q = 2 powi e / 2 ^ 23"
    unfolding q_def by (simp add: power_int_diff)
  have "2 powi e \<le> M"
  proof (cases "- 126 \<le> float_exponent x")
    case True
    then have "e = float_exponent x" unfolding e_def by simp
    then show ?thesis using float_exponent_lower [OF False] assms by simp
  next
    case False
    then have "e = - 126" unfolding e_def by simp
    moreover have "(2::real) powi (- 126) = 1 / 2 ^ 126"
      by (simp add: power_int_def power_one_over)
    ultimately show ?thesis using assms(2) by (simp only:)
  qed
  then have "q / 2 \<le> M / 2 ^ 24" unfolding q2 by simp
  with err show ?thesis by linarith
qed
lemma rne_of_int: "rne (of_int k) = k"
  by (simp add: rne_def)

lemma float32_of_int:
  assumes "\<bar>k\<bar> < 2 ^ 24"
  shows "float32 (of_int k) = of_int k"
proof (cases "k = 0")
  case True
  then show ?thesis by (simp add: float32_def)
next
  case False
  define n where "n = nat \<bar>k\<bar>"
  define fl where "fl = floorlog 2 n"
  define j where "j = 24 - fl"
  have n: "0 < n" "n < 2 ^ 24" using False assms unfolding n_def by simp_all
  have b: "2 ^ (fl - 1) \<le> n" using floorlog_bounds [of n 2] n unfolding fl_def by simp
  have fl0: "0 < fl" using n unfolding fl_def by (simp add: floorlog_def)
  have "(2::nat) ^ (fl - 1) < 2 ^ 24" using b n by linarith
  then have "fl - 1 < 24" by (rule power_less_imp_less_exp [rotated]) simp
  then have fl24: "fl \<le> 24" by simp
  have ax: "\<bar>real_of_int k\<bar> = real_of_int \<bar>k\<bar>" by simp
  have k1: "1 \<le> \<bar>k\<bar>" using False by linarith
  then have k1': "1 \<le> real_of_int \<bar>k\<bar>" by linarith
  have e: "float_exponent (of_int k) = int fl - 1"
    unfolding float_exponent_def ax fl_def n_def floor_of_int using k1'
    by (simp del: of_int_abs)
  have m: "max (int fl - 1) (- 126) - 23 = - int j" using fl0 fl24 unfolding j_def by simp
  have q: "(2::real) powi (- int j) = 1 / 2 ^ j" by (simp add: power_int_def power_one_over)
  have d: "real_of_int k / (1 / 2 ^ j) = of_int (k * 2 ^ j)" by simp
  have "float32 (of_int k) = of_int (rne (of_int k / (1 / 2 ^ j))) * (1 / 2 ^ j)"
    using False unfolding float32_def Let_def e m q by simp
  also have "\<dots> = of_int k" unfolding d rne_of_int by simp
  finally show ?thesis .
qed

lemma float32_of_nat: "n < 2 ^ 24 \<Longrightarrow> float32 (real n) = real n"
  using float32_of_int [of "int n"] by simp

lemma float32_between:
  assumes "- M \<le> x" and "x \<le> M" and "1 / 2 ^ 126 \<le> M"
  shows "x - M / 16777216 \<le> float32 x" and "float32 x \<le> x + M / 16777216"
proof -
  have "\<bar>x\<bar> \<le> M" using assms by linarith
  then have "\<bar>float32 x - x\<bar> \<le> M / 2 ^ 24" using assms(3) by (rule float32_error)
  moreover have "M / 2 ^ 24 = M / 16777216" by simp
  ultimately show "x - M / 16777216 \<le> float32 x" and "float32 x \<le> x + M / 16777216"
    by linarith+
qed

lemma float32_literals:
  "float32 1.140 = 9563013 / 8388608"
  "float32 0.395 = 13254001 / 33554432"
  "float32 0.581 = 4873781 / 8388608"
  "float32 2.032 = 4261413 / 2097152"
  by (simp_all add: float32_def float_exponent_def rne_def compute_floorlog)

lemma scale_exact: "fmul (fdiv 1 1024) 255 = 255 / 1024"
  by (simp add: fmul_def fdiv_def float32_def float_exponent_def rne_def compute_floorlog)

subsection \<open>The three channels\<close>

lemma clamp_spec: "clamp v = spec_clamp v 0 255"
  by (simp add: clamp_def spec_clamp_def)

lemma clamp_range: "0 \<le> clamp v" "clamp v \<le> 255"
  by (simp_all add: clamp_def)

lemma clamp_close: "\<bar>a - b\<bar> \<le> d \<Longrightarrow> \<bar>clamp a - clamp b\<bar> \<le> d"
  unfolding clamp_def by linarith

lemma floor_clamp: "real (unat (to_uchar (clamp v))) = real_of_int \<lfloor>clamp v\<rfloor>"
proof -
  have "0 \<le> \<lfloor>clamp v\<rfloor>" "\<lfloor>clamp v\<rfloor> < 256"
    using clamp_range [of v] by linarith+
  then have "int (unat (to_uchar (clamp v))) = \<lfloor>clamp v\<rfloor>"
    by (simp add: to_uchar_def uint_word_of_int take_bit_eq_mod)
  then show ?thesis
    by (metis of_int_of_nat_eq)
qed

lemma to_uchar_255: "to_uchar 255 = 255"
  by (simp add: to_uchar_def)

text \<open>
  The value of each channel before \<open>clamp\<close>, on a luma \<open>Y\<close> and centred chroma \<open>u\<close>, \<open>v\<close>
  in the range of the 10-bit fields, is within \<open>1 / 10000\<close> of the exact transform.
\<close>

lemma red_close:
  assumes "0 \<le> Y" "Y \<le> 1023" "- 512 \<le> v" "v \<le> 511"
  shows "\<bar>fmul (fadd Y (fmul (float32 1.140) v)) (255 / 1024)
           - (Y + 1.140 * v) * (255 / 1024)\<bar> \<le> 1 / 10000"
proof -
  define t where "t = Y + 1.140 * v"
  define p where "p = 9563013 / 8388608 * v"
  define a where "a = float32 p"
  define b where "b = float32 (Y + a)"
  define c where "c = float32 (b * (255 / 1024))"
  have t: "t = Y + 57 / 50 * v" unfolding t_def by simp
  have p: "- 584 \<le> p" "p \<le> 584" using assms unfolding p_def by linarith+
  have a: "p - 584 / 16777216 \<le> a" "a \<le> p + 584 / 16777216"
    unfolding a_def using p by (rule float32_between; simp)+
  have ya: "- 1608 \<le> Y + a" "Y + a \<le> 1608" using a p assms by linarith+
  have b: "Y + a - 1608 / 16777216 \<le> b" "b \<le> Y + a + 1608 / 16777216"
    unfolding b_def using ya by (rule float32_between; simp)+
  have bs: "- 401 \<le> b * (255 / 1024)" "b * (255 / 1024) \<le> 401" using b ya by linarith+
  have c: "b * (255 / 1024) - 401 / 16777216 \<le> c" "c \<le> b * (255 / 1024) + 401 / 16777216"
    unfolding c_def using bs by (rule float32_between; simp)+
  have bt: "t - 1 / 5000 \<le> b" "b \<le> t + 1 / 5000"
    using a b assms unfolding p_def t by linarith+
  have "fmul (fadd Y (fmul (float32 1.140) v)) (255 / 1024) = c"
    unfolding fmul_def fadd_def float32_literals c_def b_def a_def p_def ..
  moreover have "\<bar>c - t * (255 / 1024)\<bar> \<le> 1 / 10000"
    using bt c by linarith
  ultimately show ?thesis unfolding t_def by simp
qed

lemma green_close:
  assumes "0 \<le> Y" "Y \<le> 1023" "- 512 \<le> u" "u \<le> 511" "- 512 \<le> v" "v \<le> 511"
  shows "\<bar>fmul (fsub (fsub Y (fmul (float32 0.395) u)) (fmul (float32 0.581) v)) (255 / 1024)
           - (Y - 0.395 * u - 0.581 * v) * (255 / 1024)\<bar> \<le> 1 / 10000"
proof -
  define t where "t = Y - 0.395 * u - 0.581 * v"
  define p1 where "p1 = 13254001 / 33554432 * u"
  define a1 where "a1 = float32 p1"
  define b1 where "b1 = float32 (Y - a1)"
  define p2 where "p2 = 4873781 / 8388608 * v"
  define a2 where "a2 = float32 p2"
  define b2 where "b2 = float32 (b1 - a2)"
  define c where "c = float32 (b2 * (255 / 1024))"
  have t: "t = Y - 79 / 200 * u - 581 / 1000 * v" unfolding t_def by simp
  have p1: "- 203 \<le> p1" "p1 \<le> 203" using assms unfolding p1_def by linarith+
  have a1: "p1 - 203 / 16777216 \<le> a1" "a1 \<le> p1 + 203 / 16777216"
    unfolding a1_def using p1 by (rule float32_between; simp)+
  have ya: "- 1227 \<le> Y - a1" "Y - a1 \<le> 1227" using a1 p1 assms by linarith+
  have b1: "Y - a1 - 1227 / 16777216 \<le> b1" "b1 \<le> Y - a1 + 1227 / 16777216"
    unfolding b1_def using ya by (rule float32_between; simp)+
  have p2: "- 298 \<le> p2" "p2 \<le> 298" using assms unfolding p2_def by linarith+
  have a2: "p2 - 298 / 16777216 \<le> a2" "a2 \<le> p2 + 298 / 16777216"
    unfolding a2_def using p2 by (rule float32_between; simp)+
  have ba: "- 1526 \<le> b1 - a2" "b1 - a2 \<le> 1526" using b1 ya a2 p2 by linarith+
  have b2: "b1 - a2 - 1526 / 16777216 \<le> b2" "b2 \<le> b1 - a2 + 1526 / 16777216"
    unfolding b2_def using ba by (rule float32_between; simp)+
  have bs: "- 381 \<le> b2 * (255 / 1024)" "b2 * (255 / 1024) \<le> 381" using b2 ba by linarith+
  have c: "b2 * (255 / 1024) - 381 / 16777216 \<le> c" "c \<le> b2 * (255 / 1024) + 381 / 16777216"
    unfolding c_def using bs by (rule float32_between; simp)+
  have bt: "t - 1 / 4000 \<le> b2" "b2 \<le> t + 1 / 4000"
    using a1 b1 a2 b2 assms unfolding p1_def p2_def t by linarith+
  have "fmul (fsub (fsub Y (fmul (float32 0.395) u)) (fmul (float32 0.581) v)) (255 / 1024) = c"
    unfolding fmul_def fsub_def float32_literals c_def b2_def a2_def p2_def b1_def a1_def p1_def ..
  moreover have "\<bar>c - t * (255 / 1024)\<bar> \<le> 1 / 10000"
    using bt c by linarith
  ultimately show ?thesis unfolding t_def by simp
qed

lemma blue_close:
  assumes "0 \<le> Y" "Y \<le> 1023" "- 512 \<le> u" "u \<le> 511"
  shows "\<bar>fmul (fadd Y (fmul (float32 2.032) u)) (255 / 1024)
           - (Y + 2.032 * u) * (255 / 1024)\<bar> \<le> 1 / 10000"
proof -
  define t where "t = Y + 2.032 * u"
  define p where "p = 4261413 / 2097152 * u"
  define a where "a = float32 p"
  define b where "b = float32 (Y + a)"
  define c where "c = float32 (b * (255 / 1024))"
  have t: "t = Y + 254 / 125 * u" unfolding t_def by simp
  have p: "- 1041 \<le> p" "p \<le> 1041" using assms unfolding p_def by linarith+
  have a: "p - 1041 / 16777216 \<le> a" "a \<le> p + 1041 / 16777216"
    unfolding a_def using p by (rule float32_between; simp)+
  have ya: "- 2065 \<le> Y + a" "Y + a \<le> 2065" using a p assms by linarith+
  have b: "Y + a - 2065 / 16777216 \<le> b" "b \<le> Y + a + 2065 / 16777216"
    unfolding b_def using ya by (rule float32_between; simp)+
  have bs: "- 515 \<le> b * (255 / 1024)" "b * (255 / 1024) \<le> 515" using b ya by linarith+
  have c: "b * (255 / 1024) - 515 / 16777216 \<le> c" "c \<le> b * (255 / 1024) + 515 / 16777216"
    unfolding c_def using bs by (rule float32_between; simp)+
  have bt: "t - 1 / 4000 \<le> b" "b \<le> t + 1 / 4000"
    using a b assms unfolding p_def t by linarith+
  have "fmul (fadd Y (fmul (float32 2.032) u)) (255 / 1024) = c"
    unfolding fmul_def fadd_def float32_literals c_def b_def a_def p_def ..
  moreover have "\<bar>c - t * (255 / 1024)\<bar> \<le> 1 / 10000"
    using bt c by linarith
  ultimately show ?thesis unfolding t_def by simp
qed

text \<open>
  The channels of a sample whose three fields are at most 1023: the conversions of the
  fields to \<open>float\<close>, the subtractions of 512 and the scale \<open>255 / 1024\<close> are exact.
\<close>

lemma float32_field:
  assumes "n \<le> 1023"
  shows "float32 (real n) = real n" and "fsub (real n) 512 = real n - 512"
proof -
  show 1: "float32 (real n) = real n" using assms by (intro float32_of_nat) simp
  have "real n - 512 = real_of_int (int n - 512)" by simp
  moreover have "float32 (real_of_int (int n - 512)) = real_of_int (int n - 512)"
    using assms by (intro float32_of_int) simp
  ultimately show "fsub (real n) 512 = real n - 512"
    unfolding fsub_def by simp
qed

lemma YUV2RGB_sample:
  assumes "unat (uint3_x yuvi) \<le> 1023" "unat (uint3_y yuvi) \<le> 1023"
    "unat (uint3_z yuvi) \<le> 1023"
  shows "YUV2RGB make_vec_T yuvi =
     make_vec_T
       (clamp (fmul (fadd (real (unat (uint3_x yuvi)))
                 (fmul (float32 1.140) (real (unat (uint3_z yuvi)) - 512))) (255 / 1024)))
       (clamp (fmul (fsub (fsub (real (unat (uint3_x yuvi)))
                 (fmul (float32 0.395) (real (unat (uint3_y yuvi)) - 512)))
                 (fmul (float32 0.581) (real (unat (uint3_z yuvi)) - 512))) (255 / 1024)))
       (clamp (fmul (fadd (real (unat (uint3_x yuvi)))
                 (fmul (float32 2.032) (real (unat (uint3_y yuvi)) - 512))) (255 / 1024)))
       255"
  unfolding YUV2RGB_def Let_def scale_exact
    float32_field [OF assms(1)] float32_field [OF assms(2)] float32_field [OF assms(3)] ..

lemma unpack_yuv_bound:
  "unat (uint3_x (unpack_yuv pel)) \<le> 1023"
  "unat (uint3_y (unpack_yuv pel)) \<le> 1023"
  "unat (uint3_z (unpack_yuv pel)) \<le> 1023"
proof -
  have "w AND 1023 \<le> 1023" for w :: u32 by (rule word_and_le1)
  then show "unat (uint3_x (unpack_yuv pel)) \<le> 1023"
    "unat (uint3_y (unpack_yuv pel)) \<le> 1023"
    "unat (uint3_z (unpack_yuv pel)) \<le> 1023"
    by (simp_all add: unpack_yuv_def COLOR_COMPONENT_MASK_def word_le_nat_alt)
qed

text \<open>
  The unclamped sums of a sample are multiples of \<open>1 / 1000\<close>: one above 1024 is above it
  by a thousandth at least, and one below 0 is below it by as much.
\<close>

lemma grid_step:
  fixes K :: int
  shows "1024 < real_of_int K / 1000 \<Longrightarrow> 1024 + 1 / 1000 \<le> real_of_int K / 1000"
    and "real_of_int K / 1000 < 0 \<Longrightarrow> real_of_int K / 1000 \<le> - (1 / 1000)"
proof -
  assume "1024 < real_of_int K / 1000"
  then have "real_of_int 1024000 < real_of_int K" by simp
  then have "1024000 < K" by (simp only: of_int_less_iff)
  then have "1024001 \<le> K" by simp
  then have "real_of_int 1024001 \<le> real_of_int K" by (simp only: of_int_le_iff)
  then show "1024 + 1 / 1000 \<le> real_of_int K / 1000" by simp
next
  assume "real_of_int K / 1000 < 0"
  then have "real_of_int K < real_of_int 0" by simp
  then have "K < 0" by (simp only: of_int_less_iff)
  then have "K \<le> - 1" by simp
  then have "real_of_int K \<le> real_of_int (- 1)" by (simp only: of_int_le_iff)
  then show "real_of_int K / 1000 \<le> - (1 / 1000)" by simp
qed

lemma sums_on_grid:
  "real n + 1.140 * (real k - 512)
     = real_of_int (1000 * int n + 1140 * (int k - 512)) / 1000"
  "real n - 0.395 * (real m - 512) - 0.581 * (real k - 512)
     = real_of_int (1000 * int n - 395 * (int m - 512) - 581 * (int k - 512)) / 1000"
  "real n + 2.032 * (real m - 512)
     = real_of_int (1000 * int n + 2032 * (int m - 512)) / 1000"
  by (simp_all add: field_simps)

lemma channel_close:
  assumes "\<bar>x - t * (255 / 1024)\<bar> \<le> 1 / 10000"
  shows "\<bar>clamp x - spec_clamp (t * (255 / 1024)) 0 255\<bar> \<le> 1 / 10000"
    and "1024 + 1 / 1000 \<le> t \<Longrightarrow> clamp x = 255"
    and "t \<le> - (1 / 1000) \<Longrightarrow> clamp x = 0"
    and "clamp x = 255 \<Longrightarrow> 1023 + 999 / 1000 \<le> t"
proof -
  show "\<bar>clamp x - spec_clamp (t * (255 / 1024)) 0 255\<bar> \<le> 1 / 10000"
    unfolding clamp_spec [symmetric] using assms by (rule clamp_close)
  show "1024 + 1 / 1000 \<le> t \<Longrightarrow> clamp x = 255"
    using assms unfolding clamp_def by linarith
  show "t \<le> - (1 / 1000) \<Longrightarrow> clamp x = 0"
    using assms unfolding clamp_def by linarith
  show "clamp x = 255 \<Longrightarrow> 1023 + 999 / 1000 \<le> t"
    using assms unfolding clamp_def by linarith
qed

subsection \<open>Sample points\<close>

text \<open>
  The conversion evaluated at four samples. At \<open>(4, 592, 112)\<close> the exact transform gives
  green 51 and binary32 gives \<open>13369343 / 262144\<close>, just below 51; at \<open>(984, 184, 756)\<close>
  the exact green is just below 242 and binary32 gives 242.
\<close>

lemmas float32_eval =
  fadd_def fsub_def fmul_def fdiv_def float32_def float_exponent_def rne_def
  compute_floorlog clamp_def

lemma YUV2RGB_4_592_112:
  "YUV2RGB make_vec_T (make_uint3 4 592 112)
     = make_vec_T 0 (13369343 / 262144) (10873037 / 262144) 255"
  unfolding YUV2RGB_def Let_def by (simp add: float32_eval)

lemma YUV2RGB_984_184_756:
  "YUV2RGB make_vec_T (make_uint3 984 184 756)
     = make_vec_T 255 242 (10363329 / 131072) 255"
  unfolding YUV2RGB_def Let_def by (simp add: float32_eval)

lemma YUV2RGB_408_412_0:
  "YUV2RGB make_vec_T (make_uint3 408 412 0)
     = make_vec_T 0 (12157943 / 65536) (13369343 / 262144) 255"
  unfolding YUV2RGB_def Let_def by (simp add: float32_eval)

lemma YUV2RGB_1020_1020_1020:
  "YUV2RGB make_vec_T (make_uint3 1020 1020 1020)
     = make_vec_T 255 (4277407 / 32768) 255 255"
  unfolding YUV2RGB_def Let_def by (simp add: float32_eval)

lemma to_uchar_samples:
  "to_uchar 0 = 0" "to_uchar 255 = 255" "to_uchar 242 = 242"
  "to_uchar (13369343 / 262144) = 50" "to_uchar (10873037 / 262144) = 41"
  "to_uchar (10363329 / 131072) = 79" "to_uchar (12157943 / 65536) = 185"
  "to_uchar (4277407 / 32768) = 130"
  by (simp_all add: to_uchar_def)

lemma byte_pixels_at_samples:
  "YUV2RGB (make_vec T_uchar3) (make_uint3 4 592 112) = uchar3 0 50 41"
  "YUV2RGB (make_vec T_uchar4) (make_uint3 984 184 756) = uchar4 255 242 79 255"
  "YUV2RGB (make_vec T_uchar3) (make_uint3 408 412 0) = uchar3 0 185 50"
  "YUV2RGB (make_vec T_uchar4) (make_uint3 1020 1020 1020) = uchar4 255 130 255 255"
  unfolding YUV2RGB_4_592_112 YUV2RGB_984_184_756 YUV2RGB_408_412_0 YUV2RGB_1020_1020_1020
  by (simp_all only: make_vec.simps to_uchar_samples)

subsection \<open>The transform\<close>

lemma unpack_yuv_samples:
  "unpack_yuv 1070593020 = make_uint3 1020 1020 1020"
  "unpack_yuv 1020 = make_uint3 1020 0 0"
  "unpack_yuv 1044480 = make_uint3 0 1020 0"
  "unpack_yuv 1070592000 = make_uint3 0 1020 1020"
  by (simp_all add: unpack_yuv_def COLOR_COMPONENT_MASK_def COLOR_COMPONENT_BIT_SIZE_def)

text \<open>
  C8, as amended. Let \<open>Y\<close> be the luma field of a reconstructed sample and \<open>Cb\<close>, \<open>Cr\<close>
  its chroma fields minus 512, and let \<open>R\<close>, \<open>G\<close>, \<open>B\<close> be the colour channels of the float
  pixel. Each channel is within \<open>1 / 10000\<close> of the specification's clamped transform with
  scale 255/1024 (the binary32 operations round, so the two need not be equal), and lies in
  \<open>[0, 255]\<close>. A channel is exactly 255 when its unclamped sum is above 1024 and exactly 0
  when the sum is below 0. The three channels are never all 255. The 3-channel float pixel
  has the same channels, and the channels of the byte pixels are the integer parts of
  \<open>R\<close>, \<open>G\<close>, \<open>B\<close> (no wrap-around).
\<close>

theorem yuv2rgb_transform:
  fixes pel :: u32 and yuvi :: uint3 and Y Cb Cr :: real
  defines "yuvi \<equiv> unpack_yuv pel"
      and "Y \<equiv> real (unat (uint3_x (unpack_yuv pel)))"
      and "Cb \<equiv> real (unat (uint3_y (unpack_yuv pel))) - 512"
      and "Cr \<equiv> real (unat (uint3_z (unpack_yuv pel))) - 512"
  shows "case pixel_rgb (YUV2RGB (make_vec T_float4) yuvi) of (R, G, B) \<Rightarrow>
     (case spec_rgb Y Cb Cr of (R', G', B') \<Rightarrow>
        \<bar>R - R'\<bar> \<le> 1 / 10000 \<and> \<bar>G - G'\<bar> \<le> 1 / 10000 \<and> \<bar>B - B'\<bar> \<le> 1 / 10000)
     \<and> 0 \<le> R \<and> R \<le> 255 \<and> 0 \<le> G \<and> G \<le> 255 \<and> 0 \<le> B \<and> B \<le> 255
     \<and> (1024 < Y + 1.140 * Cr \<longrightarrow> R = 255) \<and> (Y + 1.140 * Cr < 0 \<longrightarrow> R = 0)
     \<and> (1024 < Y - 0.395 * Cb - 0.581 * Cr \<longrightarrow> G = 255)
     \<and> (Y - 0.395 * Cb - 0.581 * Cr < 0 \<longrightarrow> G = 0)
     \<and> (1024 < Y + 2.032 * Cb \<longrightarrow> B = 255) \<and> (Y + 2.032 * Cb < 0 \<longrightarrow> B = 0)
     \<and> \<not> (R = 255 \<and> G = 255 \<and> B = 255)
     \<and> pixel_rgb (YUV2RGB (make_vec T_float3) yuvi) = (R, G, B)
     \<and> pixel_rgb (YUV2RGB (make_vec T_uchar3) yuvi)
         = (real_of_int \<lfloor>R\<rfloor>, real_of_int \<lfloor>G\<rfloor>, real_of_int \<lfloor>B\<rfloor>)
     \<and> pixel_rgb (YUV2RGB (make_vec T_uchar4) yuvi)
         = (real_of_int \<lfloor>R\<rfloor>, real_of_int \<lfloor>G\<rfloor>, real_of_int \<lfloor>B\<rfloor>)"
proof -
  define n where "n = unat (uint3_x (unpack_yuv pel))"
  define m where "m = unat (uint3_y (unpack_yuv pel))"
  define k where "k = unat (uint3_z (unpack_yuv pel))"
  define r where "r = fmul (fadd Y (fmul (float32 1.140) Cr)) (255 / 1024)"
  define g where
    "g = fmul (fsub (fsub Y (fmul (float32 0.395) Cb)) (fmul (float32 0.581) Cr)) (255 / 1024)"
  define b where "b = fmul (fadd Y (fmul (float32 2.032) Cb)) (255 / 1024)"
  have nmk: "n \<le> 1023" "m \<le> 1023" "k \<le> 1023"
    unfolding n_def m_def k_def by (rule unpack_yuv_bound)+
  have Y: "Y = real n" and Cb: "Cb = real m - 512" and Cr: "Cr = real k - 512"
    unfolding Y_def Cb_def Cr_def n_def m_def k_def by (rule refl)+
  have range: "0 \<le> Y" "Y \<le> 1023" "- 512 \<le> Cb" "Cb \<le> 511" "- 512 \<le> Cr" "Cr \<le> 511"
    using nmk unfolding Y Cb Cr by linarith+
  have sample: "YUV2RGB make_vec_T yuvi = make_vec_T (clamp r) (clamp g) (clamp b) 255"
    for make_vec_T :: "real \<Rightarrow> real \<Rightarrow> real \<Rightarrow> real \<Rightarrow> pixel"
    unfolding yuvi_def r_def g_def b_def Y_def Cb_def Cr_def
    by (rule YUV2RGB_sample) (rule unpack_yuv_bound)+
  have rc: "\<bar>r - (Y + 1.140 * Cr) * (255 / 1024)\<bar> \<le> 1 / 10000"
    unfolding r_def using range(1,2,5,6) by (rule red_close)
  have gc: "\<bar>g - (Y - 0.395 * Cb - 0.581 * Cr) * (255 / 1024)\<bar> \<le> 1 / 10000"
    unfolding g_def using range by (rule green_close)
  have bc: "\<bar>b - (Y + 2.032 * Cb) * (255 / 1024)\<bar> \<le> 1 / 10000"
    unfolding b_def using range(1-4) by (rule blue_close)
  have spec: "spec_rgb Y Cb Cr =
      (spec_clamp ((Y + 1.140 * Cr) * (255 / 1024)) 0 255,
       spec_clamp ((Y - 0.395 * Cb - 0.581 * Cr) * (255 / 1024)) 0 255,
       spec_clamp ((Y + 2.032 * Cb) * (255 / 1024)) 0 255)"
    unfolding spec_rgb_def Let_def ..
  have f4: "pixel_rgb (YUV2RGB (make_vec T_float4) yuvi) = (clamp r, clamp g, clamp b)"
    and f3: "pixel_rgb (YUV2RGB (make_vec T_float3) yuvi) = (clamp r, clamp g, clamp b)"
    unfolding sample by simp_all
  have u3: "pixel_rgb (YUV2RGB (make_vec T_uchar3) yuvi)
         = (real_of_int \<lfloor>clamp r\<rfloor>, real_of_int \<lfloor>clamp g\<rfloor>, real_of_int \<lfloor>clamp b\<rfloor>)"
    and u4: "pixel_rgb (YUV2RGB (make_vec T_uchar4) yuvi)
         = (real_of_int \<lfloor>clamp r\<rfloor>, real_of_int \<lfloor>clamp g\<rfloor>, real_of_int \<lfloor>clamp b\<rfloor>)"
    unfolding sample by (simp_all add: floor_clamp [simplified])
  have close: "\<bar>clamp r - spec_clamp ((Y + 1.140 * Cr) * (255 / 1024)) 0 255\<bar> \<le> 1 / 10000"
    "\<bar>clamp g - spec_clamp ((Y - 0.395 * Cb - 0.581 * Cr) * (255 / 1024)) 0 255\<bar> \<le> 1 / 10000"
    "\<bar>clamp b - spec_clamp ((Y + 2.032 * Cb) * (255 / 1024)) 0 255\<bar> \<le> 1 / 10000"
    by (rule channel_close(1) [OF rc], rule channel_close(1) [OF gc],
        rule channel_close(1) [OF bc])
  have r_hi: "1024 < Y + 1.140 * Cr \<longrightarrow> clamp r = 255"
    using channel_close(2) [OF rc] grid_step(1) unfolding Y Cr sums_on_grid by blast
  have r_lo: "Y + 1.140 * Cr < 0 \<longrightarrow> clamp r = 0"
    using channel_close(3) [OF rc] grid_step(2) unfolding Y Cr sums_on_grid by blast
  have g_hi: "1024 < Y - 0.395 * Cb - 0.581 * Cr \<longrightarrow> clamp g = 255"
    using channel_close(2) [OF gc] grid_step(1) unfolding Y Cb Cr sums_on_grid by blast
  have g_lo: "Y - 0.395 * Cb - 0.581 * Cr < 0 \<longrightarrow> clamp g = 0"
    using channel_close(3) [OF gc] grid_step(2) unfolding Y Cb Cr sums_on_grid by blast
  have b_hi: "1024 < Y + 2.032 * Cb \<longrightarrow> clamp b = 255"
    using channel_close(2) [OF bc] grid_step(1) unfolding Y Cb sums_on_grid by blast
  have b_lo: "Y + 2.032 * Cb < 0 \<longrightarrow> clamp b = 0"
    using channel_close(3) [OF bc] grid_step(2) unfolding Y Cb sums_on_grid by blast
  have not_all: "\<not> (clamp r = 255 \<and> clamp g = 255 \<and> clamp b = 255)"
  proof
    assume a: "clamp r = 255 \<and> clamp g = 255 \<and> clamp b = 255"
    have "1023 + 999 / 1000 \<le> Y + 1.140 * Cr"
      "1023 + 999 / 1000 \<le> Y - 0.395 * Cb - 0.581 * Cr"
      "1023 + 999 / 1000 \<le> Y + 2.032 * Cb"
      using a channel_close(4) [OF rc] channel_close(4) [OF gc] channel_close(4) [OF bc]
      by blast+
    then have "1023 + 999 / 1000 \<le> Y + 57 / 50 * Cr"
      "1023 + 999 / 1000 \<le> Y - 79 / 200 * Cb - 581 / 1000 * Cr"
      "1023 + 999 / 1000 \<le> Y + 254 / 125 * Cb"
      by simp_all
    then show False using range(2) by linarith
  qed
  show ?thesis
    unfolding f4 f3 u3 u4 spec prod.case
    using close clamp_range r_hi r_lo g_hi g_lo b_hi b_lo not_all by blast
qed

theorem yuv2rgb_transform_witness:
  "(1024::real) < 1020 + 1.140 * 508
   \<and> fst (pixel_rgb (YUV2RGB (make_vec T_float4) (make_uint3 1020 1020 1020))) = 255
   \<and> (1024::real) < 1020 + 2.032 * 508
   \<and> snd (snd (pixel_rgb (YUV2RGB (make_vec T_float4) (make_uint3 1020 1020 1020)))) = 255
   \<and> (1024::real) < 1020 - 0.395 * (- 512) - 0.581 * (- 512)
   \<and> fst (snd (pixel_rgb (YUV2RGB (make_vec T_float4) (make_uint3 1020 0 0)))) = 255
   \<and> (1020::real) + 2.032 * (- 512) < 0
   \<and> snd (snd (pixel_rgb (YUV2RGB (make_vec T_float4) (make_uint3 1020 0 0)))) = 0
   \<and> (0::real) + 1.140 * (- 512) < 0
   \<and> fst (pixel_rgb (YUV2RGB (make_vec T_float4) (make_uint3 0 1020 0))) = 0
   \<and> (0::real) - 0.395 * 508 - 0.581 * 508 < 0
   \<and> fst (snd (pixel_rgb (YUV2RGB (make_vec T_float4) (make_uint3 0 1020 1020)))) = 0"
  using yuv2rgb_transform [of 1070593020] yuv2rgb_transform [of 1020]
        yuv2rgb_transform [of 1044480] yuv2rgb_transform [of 1070592000]
  unfolding unpack_yuv_samples
  by (simp add: case_prod_unfold)

text \<open>
  C8 as stated fails twice. At its own example, maximum luma with maximum chroma, the
  sample \<open>(1020, 1020, 1020)\<close>, red and blue are 255 but green is about 130.5 (130 as a
  byte). And the channels are not equal to the transform: at the sample \<open>(4, 592, 112)\<close>
  the transform gives green 51 exactly, the float pixel has a green just below it and the
  byte pixel has green 50.
\<close>

theorem full_saturation_counterexample:
  "pixel_rgb (YUV2RGB (make_vec T_float4) (make_uint3 1020 1020 1020)) \<noteq> (255, 255, 255)
   \<and> pixel_rgb (YUV2RGB (make_vec T_uchar4) (make_uint3 1020 1020 1020)) = (255, 130, 255)
   \<and> spec_rgb 4 (592 - 512) (112 - 512) = (0, 51, 53091 / 1280)
   \<and> pixel_rgb (YUV2RGB (make_vec T_float3) (make_uint3 4 592 112))
       = (0, 13369343 / 262144, 10873037 / 262144)
   \<and> pixel_rgb (YUV2RGB (make_vec T_uchar3) (make_uint3 4 592 112)) = (0, 50, 41)"
  unfolding YUV2RGB_4_592_112 YUV2RGB_1020_1020_1020
  by (simp add: to_uchar_samples spec_rgb_def spec_clamp_def)


section \<open>The alpha channel and the channel count\<close>

lemma alpha_YUV2RGB:
  "pixel_alpha (YUV2RGB (make_vec T_uchar4) yuvi) = Some 255"
  "pixel_alpha (YUV2RGB (make_vec T_float4) yuvi) = Some 255"
  by (simp_all add: YUV2RGB_def Let_def to_uchar_255)

text \<open>
  C9. For both 4-channel pixel types the alpha channel of a converted sample is 255,
  whatever the sample, and so is the alpha channel of every pixel a thread stores. The
  fourth scalar that \<open>YUV2RGB\<close> hands to the pixel constructor is the constant 255. 255 is
  the largest byte, and the upper end of the range that \<open>clamp\<close> gives the colour channels
  of a float pixel.
\<close>

theorem alpha_opaque:
  "pixel_alpha (YUV2RGB (make_vec T_uchar4) yuvi) = Some 255
   \<and> pixel_alpha (YUV2RGB (make_vec T_float4) yuvi) = Some 255
   \<and> list_all (\<lambda>(i, p). pixel_alpha p = Some 255)
        (stores (NV12ToRGBA (make_vec T_uchar4) srcImageU8 nSourcePitch nDestPitch width height
                   blockIdx blockDim threadIdx))
   \<and> list_all (\<lambda>(i, p). pixel_alpha p = Some 255)
        (stores (NV12ToRGBA (make_vec T_float4) srcImageU8 nSourcePitch nDestPitch width height
                   blockIdx blockDim threadIdx))
   \<and> YUV2RGB (\<lambda>r g b a. a) yuvi = 255
   \<and> real (unat (c :: u8)) \<le> 255
   \<and> clamp v \<le> 255"
proof -
  have "unat c \<le> 255" using byte_bound [of c] by simp
  then have c: "real (unat c) \<le> 255" by linarith
  show ?thesis
    by (simp add: alpha_YUV2RGB NV12ToRGBA_def Let_def no_effect_def case_prod_unfold
          c [simplified] clamp_range)
       (simp add: YUV2RGB_def Let_def)
qed

lemma rgb_YUV2RGB_3_4:
  "pixel_rgb (YUV2RGB (make_vec T_uchar3) yuvi) = pixel_rgb (YUV2RGB (make_vec T_uchar4) yuvi)"
  "pixel_rgb (YUV2RGB (make_vec T_float3) yuvi) = pixel_rgb (YUV2RGB (make_vec T_float4) yuvi)"
  by (simp_all add: YUV2RGB_def Let_def)

lemma rgb_effect_3_4:
  "rgb_effect (NV12ToRGBA (make_vec T_uchar3) src sp dp w h b bd t)
     = rgb_effect (NV12ToRGBA (make_vec T_uchar4) src sp dp w h b bd t)"
  "rgb_effect (NV12ToRGBA (make_vec T_float3) src sp dp w h b bd t)
     = rgb_effect (NV12ToRGBA (make_vec T_float4) src sp dp w h b bd t)"
  by (simp_all add: rgb_effect_def NV12ToRGBA_def Let_def no_effect_def rgb_YUV2RGB_3_4
        split: prod.splits)

text \<open>
  C10. On the same arguments, the 3-channel entry point and the 4-channel entry point of
  the same numeric kind return the same error code, and their threads load the same bytes
  and store, at the same element indices, pixels with the same R, G and B. The converted
  sample has the same R, G, B for 3 and 4 channels; the 3-channel pixel has no alpha
  channel and the 4-channel pixel has one.
\<close>

theorem channel_count_only_alpha:
  "fst (cudaNV12ToRGB_uchar3 lastError mem srcDev srcPitch destDev destPitch width height)
     = fst (cudaNV12ToRGBA_uchar4 lastError mem srcDev srcPitch destDev destPitch width height)
   \<and> map rgb_effect (snd (cudaNV12ToRGB_uchar3 lastError mem srcDev srcPitch destDev destPitch width height))
     = map rgb_effect (snd (cudaNV12ToRGBA_uchar4 lastError mem srcDev srcPitch destDev destPitch width height))
   \<and> fst (cudaNV12ToRGB_float3 lastError mem srcDev srcPitch destDev destPitch width height)
     = fst (cudaNV12ToRGBA_float4 lastError mem srcDev srcPitch destDev destPitch width height)
   \<and> map rgb_effect (snd (cudaNV12ToRGB_float3 lastError mem srcDev srcPitch destDev destPitch width height))
     = map rgb_effect (snd (cudaNV12ToRGBA_float4 lastError mem srcDev srcPitch destDev destPitch width height))
   \<and> pixel_rgb (YUV2RGB (make_vec T_uchar3) yuvi) = pixel_rgb (YUV2RGB (make_vec T_uchar4) yuvi)
   \<and> pixel_rgb (YUV2RGB (make_vec T_float3) yuvi) = pixel_rgb (YUV2RGB (make_vec T_float4) yuvi)
   \<and> pixel_alpha (YUV2RGB (make_vec T_uchar3) yuvi) = None
   \<and> pixel_alpha (YUV2RGB (make_vec T_float3) yuvi) = None
   \<and> pixel_alpha (YUV2RGB (make_vec T_uchar4) yuvi) \<noteq> None
   \<and> pixel_alpha (YUV2RGB (make_vec T_float4) yuvi) \<noteq> None"
  by (simp add: cudaNV12ToRGB_uchar3_def cudaNV12ToRGBA_uchar4_def cudaNV12ToRGB_float3_def
        cudaNV12ToRGBA_float4_def launchNV12ToRGBA_def Let_def rgb_effect_3_4 rgb_YUV2RGB_3_4
        case_prod_unfold)
     (simp add: YUV2RGB_def Let_def)

section \<open>Work partitioning\<close>

subsection \<open>Ceiling division\<close>

lemma div_shift:
  fixes r q b :: int
  assumes "0 \<le> r" "r < b"
  shows "(r + q * b) div b = q"
  using assms by simp

lemma ceil_div_int:
  fixes a b :: int
  assumes "0 < b" "0 \<le> a"
  shows "- (- a div b) = (a + b - 1) div b"
proof -
  define q where "q = a div b"
  define r where "r = a mod b"
  have a: "a = r + q * b" by (simp add: q_def r_def)
  have r: "0 \<le> r" "r < b" using assms by (simp_all add: r_def)
  show ?thesis
  proof (cases "r = 0")
    case True
    have e1: "- a = 0 + (- q) * b" using True a by simp
    have "(0 + (- q) * b) div b = - q" using assms by (intro div_shift) simp_all
    then have 1: "- a div b = - q" by (simp only: e1)
    have e2: "a + b - 1 = (b - 1) + q * b" using True a by simp
    have "((b - 1) + q * b) div b = q" using assms by (intro div_shift) simp_all
    then have 2: "(a + b - 1) div b = q" by (simp only: e2)
    from 1 2 show ?thesis by simp
  next
    case False
    have e1: "- a = (b - r) + (- q - 1) * b" using a by (simp add: algebra_simps)
    have "((b - r) + (- q - 1) * b) div b = - q - 1"
      using r False by (intro div_shift) simp_all
    then have 1: "- a div b = - q - 1" by (simp only: e1)
    have e2: "a + b - 1 = (r - 1) + (q + 1) * b" using a by (simp add: algebra_simps)
    have "((r - 1) + (q + 1) * b) div b = q + 1"
      using r False by (intro div_shift) simp_all
    then have 2: "(a + b - 1) div b = q + 1" by (simp only: e2)
    from 1 2 show ?thesis by simp
  qed
qed

lemma iDivUp_div:
  assumes "0 < b"
  shows "iDivUp a b = (a + b - 1) div b"
proof -
  have "real a / real b = of_int (int a) / of_int (int b)" by simp
  then have "\<lceil>real a / real b\<rceil> = - (- int a div int b)"
    by (simp only: ceiling_divide_eq_div)
  also have "\<dots> = (int a + int b - 1) div int b"
    using assms by (simp add: ceil_div_int)
  also have "\<dots> = int ((a + b - 1) div b)"
    using assms by (simp add: zdiv_int of_nat_diff)
  finally show ?thesis by (simp add: iDivUp_def)
qed

subsection \<open>Threads and indices as natural numbers\<close>

lemma store_indices:
  "map fst (stores (NV12ToRGBA make_vec_T srcImageU8 nSourcePitch nDestPitch width height
                      blockIdx blockDim threadIdx)) =
     (if thread_x blockIdx blockDim threadIdx < width \<and> thread_y blockIdx blockDim threadIdx < height
      then [unat (thread_y blockIdx blockDim threadIdx * width + thread_x blockIdx blockDim threadIdx),
            unat (thread_y blockIdx blockDim threadIdx * width + thread_x blockIdx blockDim threadIdx + 1)]
      else [])"
  by (auto simp add: NV12ToRGBA_def Let_def no_effect_def case_prod_unfold not_le)

lemma thread_x_nat:
  assumes "64 * bx + 2 * tx < 2 ^ 32"
  shows "unat (thread_x (dim3 (of_nat bx) b2 b3) launch_blockDim (dim3 (of_nat tx) t2 t3))
           = 64 * bx + 2 * tx"
proof -
  have "thread_x (dim3 (of_nat bx) b2 b3) launch_blockDim (dim3 (of_nat tx) t2 t3)
          = of_nat (64 * bx + 2 * tx)"
    by (simp add: thread_x_def launch_blockDim_def push_bit_eq_mult)
  then show ?thesis using assms unat_of_nat32 by metis
qed

lemma thread_y_nat:
  assumes "8 * by + ty < 2 ^ 32"
  shows "unat (thread_y (dim3 b1 (of_nat by) b3) launch_blockDim (dim3 t1 (of_nat ty) t3))
           = 8 * by + ty"
proof -
  have "thread_y (dim3 b1 (of_nat by) b3) launch_blockDim (dim3 t1 (of_nat ty) t3)
          = of_nat (8 * by + ty)"
    by (simp add: thread_y_def launch_blockDim_def)
  then show ?thesis using assms unat_of_nat32 by metis
qed

lemma index_nat:
  fixes x y w :: u32
  assumes "unat y * unat w + unat x + k < 2 ^ 32"
  shows "unat (y * w + x + of_nat k) = unat y * unat w + unat x + k"
proof -
  have "y * w + x + of_nat k = of_nat (unat y * unat w + unat x + k)"
    by simp
  then show ?thesis using assms unat_of_nat32 by metis
qed

lemma row_col_unique:
  fixes W :: nat
  assumes "X < W" "px < W"
  shows "Y * W + X = py * W + px \<longleftrightarrow> Y = py \<and> X = px"
proof
  assume e: "Y * W + X = py * W + px"
  have "(Y * W + X) div W = Y" "(Y * W + X) mod W = X" using assms by simp_all
  moreover have "(py * W + px) div W = py" "(py * W + px) mod W = px" using assms by simp_all
  ultimately show "Y = py \<and> X = px" using e by metis
qed simp

lemma in_image_index_bound:
  fixes W H X Y :: nat
  assumes "X < W" "Y < H"
  shows "Y * W + X < W * H"
proof -
  have "Y * W + X < Y * W + W" using assms by simp
  also have "\<dots> = (Y + 1) * W" by simp
  also have "\<dots> \<le> H * W" using assms by (intro mult_le_mono1) simp
  finally show ?thesis by (simp add: mult.commute)
qed

lemma qr_unique:
  fixes n q r k :: nat
  assumes "r < n"
  shows "n * q + r = k \<longleftrightarrow> q = k div n \<and> r = k mod n"
  using assms by auto

lemma half_unique:
  fixes m px :: nat
  shows "(2 * m = px \<or> 2 * m + 1 = px) \<longleftrightarrow> m = px div 2"
  by presburger

lemma thread_select:
  fixes bx "by" tx ty px py :: nat
  assumes "tx < 32" "ty < 8"
  shows "(by = py div 8 \<and> bx = px div 2 div 32 \<and> ty = py mod 8 \<and> tx = px div 2 mod 32)
               \<longleftrightarrow> (8 * by + ty = py \<and> (64 * bx + 2 * tx = px \<or> 64 * bx + 2 * tx + 1 = px))"
proof -
  have "64 * bx + 2 * tx = 2 * (32 * bx + tx)" by simp
  then have "(64 * bx + 2 * tx = px \<or> 64 * bx + 2 * tx + 1 = px) \<longleftrightarrow> 32 * bx + tx = px div 2"
    using half_unique [of "32 * bx + tx" px] by simp
  then show ?thesis
    using qr_unique [of tx 32 bx "px div 2"] qr_unique [of ty 8 "by" py] assms by auto
qed

lemma block_col_bound:
  fixes bx tx W :: nat
  assumes "bx < (W + 31) div 32" "tx < 32" "W \<le> 2 ^ 31"
  shows "64 * bx + 2 * tx < 2 ^ 32"
proof -
  have "(W + 31) div 32 \<le> (2 ^ 31 + 31) div 32"
    using assms(3) by (intro div_le_mono) simp
  then have "bx < 67108864" using assms(1) by simp
  then show ?thesis using assms(2) by simp
qed

lemma block_row_bound:
  fixes "by" ty H :: nat
  assumes "by < (H + 7) div 8" "ty < 8" "H \<le> 2 ^ 31"
  shows "8 * by + ty < 2 ^ 32"
proof -
  have "(H + 7) div 8 \<le> (2 ^ 31 + 7) div 8"
    using assms(3) by (intro div_le_mono) simp
  then have "by < 268435456" using assms(1) by simp
  then show ?thesis using assms(2) by simp
qed

lemma half_product_bound:
  fixes W H :: nat
  assumes "W * H \<le> 2 ^ 32" "2 \<le> H"
  shows "W \<le> 2 ^ 31"
proof -
  have "W * 2 \<le> W * H" using assms(2) by (rule mult_le_mono2)
  also note assms(1)
  finally have "W * 2 \<le> 2 ^ 32" .
  then show ?thesis by simp
qed

lemma unat_ucast_size_t:
  fixes a :: size_t
  assumes "unat a < 2 ^ 32"
  shows "unat (ucast a :: u32) = unat a"
  using assms by (simp add: unsigned_ucast_eq take_bit_nat_eq_self)

lemma launch_gridDim_nat:
  assumes "unat width \<le> 2 ^ 31" "unat height \<le> 2 ^ 31"
  shows "unat (dim_x (launch_gridDim width height)) = (unat width + 31) div 32"
    and "unat (dim_y (launch_gridDim width height)) = (unat height + 7) div 8"
proof -
  have "(unat width + 31) div 32 \<le> (2 ^ 31 + 31) div 32"
    using assms(1) by (intro div_le_mono) simp
  then have "(unat width + 31) div 32 < 2 ^ 32" by simp
  then show "unat (dim_x (launch_gridDim width height)) = (unat width + 31) div 32"
    by (simp add: launch_gridDim_def launch_blockDim_def iDivUp_div unat_of_nat32)
  have "(unat height + 7) div 8 \<le> (2 ^ 31 + 7) div 8"
    using assms(2) by (intro div_le_mono) simp
  then have "(unat height + 7) div 8 < 2 ^ 32" by simp
  then show "unat (dim_y (launch_gridDim width height)) = (unat height + 7) div 8"
    by (simp add: launch_gridDim_def launch_blockDim_def iDivUp_div unat_of_nat32)
qed

lemma block_start_bound:
  fixes n k a :: nat
  assumes "0 < k" "n < (a + k - 1) div k"
  shows "k * n < a"
proof -
  have "n + 1 \<le> (a + k - 1) div k" using assms(2) by simp
  then have "(n + 1) * k \<le> a + k - 1"
    using assms(1) by (simp only: less_eq_div_iff_mult_less_eq)
  then show ?thesis using assms(1) by (simp add: algebra_simps)
qed

lemma grid_threads_member:
  assumes "bx < unat (dim_x g)" "by < unat (dim_y g)" "tx < unat (dim_x b)" "ty < unat (dim_y b)"
  shows "(dim3 (of_nat bx) (of_nat by) 0, dim3 (of_nat tx) (of_nat ty) 0) \<in> set (grid_threads g b)"
proof -
  have "(dim3 (of_nat bx) (of_nat by) 0, dim3 (of_nat tx) (of_nat ty) 0)
          \<in> (\<lambda>tx'. (dim3 (of_nat bx) (of_nat by) 0, dim3 (of_nat tx') (of_nat ty) 0))
              ` {0..<unat (dim_x b)}"
    using assms(3) by (intro image_eqI [of _ _ tx]) simp_all
  then show ?thesis
    using assms(1,2,4)
    by (simp add: grid_threads_def)
       (intro bexI [of _ "by"] bexI [of _ bx] bexI [of _ ty], simp_all)
qed

lemma dispatched_member:
  assumes "srcDev \<noteq> 0" "destDev \<noteq> 0" "srcPitch \<noteq> 0" "destPitch \<noteq> 0" "width \<noteq> 0" "height \<noteq> 0"
    and "bx < unat (dim_x (launch_gridDim width height))"
    and "by < unat (dim_y (launch_gridDim width height))"
    and "tx < 32" "ty < 8"
  shows "NV12ToRGBA make_vec_T (\<lambda>i. mem (unat srcDev + i)) srcPitch destPitch
           (ucast width) (ucast height) (dim3 (of_nat bx) (of_nat by) 0) launch_blockDim
           (dim3 (of_nat tx) (of_nat ty) 0)
         \<in> set (snd (launchNV12ToRGBA lastError make_vec_T mem srcDev srcPitch destDev destPitch
                        width height))"
proof -
  have "(dim3 (of_nat bx) (of_nat by) 0, dim3 (of_nat tx) (of_nat ty) 0)
          \<in> set (grid_threads (launch_gridDim width height) launch_blockDim)"
    using assms(7-10) by (intro grid_threads_member) (simp_all add: launch_blockDim_def)
  then show ?thesis
    using assms(1-6) by (force simp add: launchNV12ToRGBA_def Let_def)
qed

subsection \<open>The grid\<close>

text \<open>
  C4, as amended. The launch uses blocks of 32 by 8 threads and a grid of
  \<open>ceil(width / 32)\<close> by \<open>ceil(height / 8)\<close> blocks (the divisor in x is the block width,
  not twice the block width), and dispatches one thread per block index and thread index.
  Every block row starts inside the image, \<open>8 * by < height\<close>, and \<open>32 * bx < width\<close> for
  every block column. A block column starts at \<open>x = 64 * bx\<close>: the block columns below
  \<open>ceil(width / 64)\<close> start inside the image and the others at or beyond \<open>width\<close>. For
  widths up to \<open>2^31\<close> thread \<open>tx\<close> of block column \<open>bx\<close> has \<open>x = 64 * bx + 2 * tx\<close>,
  and every thread of a block column that starts at or beyond \<open>width\<close> returns at the guard
  with no load and no store.
\<close>

theorem launch_grid:
  "launch_blockDim = dim3 32 8 1
   \<and> launch_gridDim width height =
       dim3 (of_nat (iDivUp (unat width) 32)) (of_nat (iDivUp (unat height) 8)) 1
   \<and> (srcDev \<noteq> 0 \<and> destDev \<noteq> 0 \<and> srcPitch \<noteq> 0 \<and> destPitch \<noteq> 0 \<and> width \<noteq> 0 \<and> height \<noteq> 0 \<longrightarrow>
       snd (launchNV12ToRGBA lastError make_vec_T mem srcDev srcPitch destDev destPitch width height)
       = map (\<lambda>(blockIdx, threadIdx).
               NV12ToRGBA make_vec_T (\<lambda>i. mem (unat srcDev + i)) srcPitch destPitch
                 (ucast width) (ucast height) blockIdx launch_blockDim threadIdx)
           (grid_threads (launch_gridDim width height) launch_blockDim))
   \<and> (by < iDivUp (unat height) 8 \<longrightarrow> 8 * by < unat height)
   \<and> (bx < iDivUp (unat width) 32 \<longrightarrow> 32 * bx < unat width)
   \<and> (bx < iDivUp (unat width) 64 \<longrightarrow> 64 * bx < unat width)
   \<and> (iDivUp (unat width) 64 \<le> bx \<longrightarrow> unat width \<le> 64 * bx)
   \<and> (unat width \<le> 2 ^ 31 \<and> bx < iDivUp (unat width) 32 \<and> tx < 32 \<longrightarrow>
       unat (thread_x (dim3 (of_nat bx) (of_nat by) 0) launch_blockDim
               (dim3 (of_nat tx) (of_nat ty) 0)) = 64 * bx + 2 * tx
       \<and> (unat width \<le> 64 * bx \<longrightarrow>
           NV12ToRGBA make_vec_T srcImageU8 nSourcePitch nDestPitch (ucast width) (ucast height)
             (dim3 (of_nat bx) (of_nat by) 0) launch_blockDim (dim3 (of_nat tx) (of_nat ty) 0)
           = no_effect))"
proof -
  have 1: "launch_blockDim = dim3 32 8 1" by (simp add: launch_blockDim_def)
  have 2: "launch_gridDim width height =
       dim3 (of_nat (iDivUp (unat width) 32)) (of_nat (iDivUp (unat height) 8)) 1"
    by (simp add: launch_gridDim_def launch_blockDim_def)
  have 3: "srcDev \<noteq> 0 \<and> destDev \<noteq> 0 \<and> srcPitch \<noteq> 0 \<and> destPitch \<noteq> 0 \<and> width \<noteq> 0 \<and> height \<noteq> 0 \<longrightarrow>
       snd (launchNV12ToRGBA lastError make_vec_T mem srcDev srcPitch destDev destPitch width height)
       = map (\<lambda>(blockIdx, threadIdx).
               NV12ToRGBA make_vec_T (\<lambda>i. mem (unat srcDev + i)) srcPitch destPitch
                 (ucast width) (ucast height) blockIdx launch_blockDim threadIdx)
           (grid_threads (launch_gridDim width height) launch_blockDim)"
    by (simp add: launchNV12ToRGBA_def Let_def)
  have 4: "by < iDivUp (unat height) 8 \<longrightarrow> 8 * by < unat height"
    using block_start_bound [of 8 "by" "unat height"] by (simp add: iDivUp_div)
  have 5: "bx < iDivUp (unat width) 32 \<longrightarrow> 32 * bx < unat width"
    using block_start_bound [of 32 bx "unat width"] by (simp add: iDivUp_div)
  have 7: "bx < iDivUp (unat width) 64 \<longrightarrow> 64 * bx < unat width"
    using block_start_bound [of 64 bx "unat width"] by (simp add: iDivUp_div)
  have 8: "iDivUp (unat width) 64 \<le> bx \<longrightarrow> unat width \<le> 64 * bx"
    by (simp add: iDivUp_div) arith
  have 6: "unat width \<le> 2 ^ 31 \<and> bx < iDivUp (unat width) 32 \<and> tx < 32 \<longrightarrow>
       unat (thread_x (dim3 (of_nat bx) (of_nat by) 0) launch_blockDim
               (dim3 (of_nat tx) (of_nat ty) 0)) = 64 * bx + 2 * tx
       \<and> (unat width \<le> 64 * bx \<longrightarrow>
           NV12ToRGBA make_vec_T srcImageU8 nSourcePitch nDestPitch (ucast width) (ucast height)
             (dim3 (of_nat bx) (of_nat by) 0) launch_blockDim (dim3 (of_nat tx) (of_nat ty) 0)
           = no_effect)"
  proof (intro impI, elim conjE)
    assume a: "unat width \<le> 2 ^ 31" "bx < iDivUp (unat width) 32" "tx < 32"
    have b: "64 * bx + 2 * tx < 2 ^ 32"
      using a by (intro block_col_bound [of bx "unat width"]) (simp_all add: iDivUp_div)
    have x: "unat (thread_x (dim3 (of_nat bx) (of_nat by) 0) launch_blockDim
               (dim3 (of_nat tx) (of_nat ty) 0)) = 64 * bx + 2 * tx"
      using b by (rule thread_x_nat)
    have w: "unat (ucast width :: u32) = unat width"
      using a(1) by (intro unat_ucast_size_t) simp
    have "unat width \<le> 64 * bx \<longrightarrow>
           NV12ToRGBA make_vec_T srcImageU8 nSourcePitch nDestPitch (ucast width) (ucast height)
             (dim3 (of_nat bx) (of_nat by) 0) launch_blockDim (dim3 (of_nat tx) (of_nat ty) 0)
           = no_effect"
      by (simp add: NV12ToRGBA_def Let_def word_le_nat_alt x w)
    with x show "unat (thread_x (dim3 (of_nat bx) (of_nat by) 0) launch_blockDim
               (dim3 (of_nat tx) (of_nat ty) 0)) = 64 * bx + 2 * tx
       \<and> (unat width \<le> 64 * bx \<longrightarrow>
           NV12ToRGBA make_vec_T srcImageU8 nSourcePitch nDestPitch (ucast width) (ucast height)
             (dim3 (of_nat bx) (of_nat by) 0) launch_blockDim (dim3 (of_nat tx) (of_nat ty) 0)
           = no_effect)" by simp
  qed
  from 1 2 3 4 5 6 7 8 show ?thesis by blast
qed

theorem launch_grid_witness:
  "(1024 :: size_t) \<noteq> 0 \<and> (4096 :: size_t) \<noteq> 0 \<and> (128 :: size_t) \<noteq> 0 \<and> (512 :: size_t) \<noteq> 0
   \<and> (8 :: size_t) \<noteq> 0
   \<and> snd (launchNV12ToRGBA cudaSuccess (make_vec T_uchar4) (\<lambda>i. 16) 1024 128 4096 512 128 8)
       = map (\<lambda>(blockIdx, threadIdx).
               NV12ToRGBA (make_vec T_uchar4) (\<lambda>i. 16) 128 512
                 (ucast (128 :: size_t)) (ucast (8 :: size_t)) blockIdx launch_blockDim threadIdx)
           (grid_threads (launch_gridDim 128 8) launch_blockDim)
   \<and> (0 :: nat) < iDivUp (unat (8 :: size_t)) 8 \<and> 8 * (0 :: nat) < unat (8 :: size_t)
   \<and> (3 :: nat) < iDivUp (unat (128 :: size_t)) 32 \<and> 32 * (3 :: nat) < unat (128 :: size_t)
   \<and> (1 :: nat) < iDivUp (unat (128 :: size_t)) 64 \<and> 64 * (1 :: nat) < unat (128 :: size_t)
   \<and> iDivUp (unat (128 :: size_t)) 64 \<le> (3 :: nat)
   \<and> unat (128 :: size_t) \<le> 2 ^ 31 \<and> (5 :: nat) < 32 \<and> unat (128 :: size_t) \<le> 64 * 3
   \<and> unat (thread_x (dim3 (of_nat 3) (of_nat 0) 0) launch_blockDim
             (dim3 (of_nat 5) (of_nat 2) 0)) = 64 * 3 + 2 * 5
   \<and> NV12ToRGBA (make_vec T_uchar4) (\<lambda>i. 16) 128 512 (ucast (128 :: size_t)) (ucast (8 :: size_t))
         (dim3 (of_nat 3) (of_nat 0) 0) launch_blockDim (dim3 (of_nat 5) (of_nat 2) 0)
       = no_effect"
proof -
  have g: "(0 :: nat) < iDivUp (unat (8 :: size_t)) 8" "(3 :: nat) < iDivUp (unat (128 :: size_t)) 32"
    "(1 :: nat) < iDivUp (unat (128 :: size_t)) 64" "iDivUp (unat (128 :: size_t)) 64 \<le> (3 :: nat)"
    by (simp_all add: iDivUp_def)
  show ?thesis
    using g launch_grid [where width = 128 and height = 8 and bx = 1]
      launch_grid [where width = 128 and height = 8 and srcDev = 1024 and destDev = 4096
        and srcPitch = 128 and destPitch = 512 and lastError = cudaSuccess
        and make_vec_T = "make_vec T_uchar4" and mem = "\<lambda>i. 16" and ?srcImageU8.0 = "\<lambda>i. 16"
        and nSourcePitch = 128 and nDestPitch = 512 and bx = 3 and ?by = 0 and tx = 5 and ty = 2]
    by simp
qed

text \<open>
  C4 as stated fails at width 128: the grid has 4 block columns where
  \<open>ceil(128 / (2 * 32))\<close> is 2, and block column 3 starts at \<open>x = 192\<close>, beyond the image.
\<close>

theorem grid_width_counterexample:
  "dim_x (launch_gridDim 128 8) = 4 \<and> iDivUp 128 (2 * 32) = 2
   \<and> thread_x (dim3 3 0 0) launch_blockDim (dim3 0 0 0) = 192"
  by (simp add: launch_gridDim_def launch_blockDim_def iDivUp_def thread_x_def)

subsection \<open>Coverage\<close>

lemma sum_list_concat_map:
  fixes xss :: "nat list list"
  shows "sum_list (concat xss) = sum_list (map sum_list xss)"
  by (induction xss) simp_all

lemma sum_grid:
  fixes f :: "dim3 \<times> dim3 \<Rightarrow> nat"
  shows "sum_list (map f (grid_threads g b)) =
     (\<Sum>by = 0..<unat (dim_y g). \<Sum>bx = 0..<unat (dim_x g).
        \<Sum>ty = 0..<unat (dim_y b). \<Sum>tx = 0..<unat (dim_x b).
          f (dim3 (of_nat bx) (of_nat by) 0, dim3 (of_nat tx) (of_nat ty) 0))"
  by (simp add: grid_threads_def map_concat sum_list_concat_map comp_def
        interv_sum_list_conv_sum_set_nat)

lemma sum1_delta:
  fixes D :: "nat set"
  assumes "finite D" "d \<in> D"
  shows "(\<Sum>l\<in>D. if P \<and> l = d then 1 else 0) = (if P then 1 else (0::nat))"
proof (cases P)
  case True
  then have "(\<Sum>l\<in>D. if P \<and> l = d then 1 else 0) = (\<Sum>l\<in>D. if l = d then 1 else (0::nat))"
    by simp
  then show ?thesis using assms True by (simp add: sum.delta)
qed simp

lemma sum4_delta:
  fixes A B C D :: "nat set"
  assumes "finite A" "finite B" "finite C" "finite D" "a \<in> A" "b \<in> B" "c \<in> C" "d \<in> D"
  shows "(\<Sum>i\<in>A. \<Sum>j\<in>B. \<Sum>k\<in>C. \<Sum>l\<in>D.
            if i = a \<and> j = b \<and> k = c \<and> l = d then 1 else 0) = (1::nat)"
proof -
  have 4: "(\<Sum>l\<in>D. if i = a \<and> j = b \<and> k = c \<and> l = d then 1 else 0)
             = (if i = a \<and> j = b \<and> k = c then 1 else (0::nat))" for i j k
    using sum1_delta [OF assms(4,8), of "i = a \<and> j = b \<and> k = c"] by simp
  have 3: "(\<Sum>k\<in>C. if i = a \<and> j = b \<and> k = c then 1 else 0)
             = (if i = a \<and> j = b then 1 else (0::nat))" for i j
    using sum1_delta [OF assms(3,7), of "i = a \<and> j = b"] by simp
  have 2: "(\<Sum>j\<in>B. if i = a \<and> j = b then 1 else 0) = (if i = a then 1 else (0::nat))" for i
    using sum1_delta [OF assms(2,6), of "i = a"] by simp
  have 1: "(\<Sum>i\<in>A. if i = a then 1 else 0) = (1::nat)"
    using assms(1,5) by (simp add: sum.delta)
  show ?thesis by (simp only: 4 3 2 1)
qed

lemma thread_store_count:
  fixes w h :: u32 and W H :: nat
  assumes W: "unat w = W" and H: "unat h = H"
    and ev: "even W" and W31: "W \<le> 2 ^ 31" and H31: "H \<le> 2 ^ 31" and WH: "W * H \<le> 2 ^ 32"
    and px: "px < W" and py: "py < H"
    and bx: "bx < (W + 31) div 32" and "by": "by < (H + 7) div 8"
    and tx: "tx < 32" and ty: "ty < 8"
  shows "count_list (map fst (stores (NV12ToRGBA make_vec_T srcImageU8 nSourcePitch nDestPitch w h
            (dim3 (of_nat bx) (of_nat by) 0) launch_blockDim (dim3 (of_nat tx) (of_nat ty) 0))))
           (py * W + px)
         = (if by = py div 8 \<and> bx = px div 2 div 32 \<and> ty = py mod 8 \<and> tx = px div 2 mod 32
            then 1 else 0)"
proof -
  define X where "X = 64 * bx + 2 * tx"
  define Y where "Y = 8 * by + ty"
  define x where "x = thread_x (dim3 (of_nat bx) (of_nat by) 0) launch_blockDim
                        (dim3 (of_nat tx) (of_nat ty) 0)"
  define y where "y = thread_y (dim3 (of_nat bx) (of_nat by) 0) launch_blockDim
                        (dim3 (of_nat tx) (of_nat ty) 0)"
  have Xb: "X < 2 ^ 32" unfolding X_def using bx tx W31 by (rule block_col_bound)
  have Yb: "Y < 2 ^ 32" unfolding Y_def using "by" ty H31 by (rule block_row_bound)
  have x: "unat x = X" unfolding x_def X_def using Xb thread_x_nat X_def by simp
  have y: "unat y = Y" unfolding y_def Y_def using Yb thread_y_nat Y_def by simp
  have idx: "map fst (stores (NV12ToRGBA make_vec_T srcImageU8 nSourcePitch nDestPitch w h
            (dim3 (of_nat bx) (of_nat by) 0) launch_blockDim (dim3 (of_nat tx) (of_nat ty) 0)))
        = (if X < W \<and> Y < H then [unat (y * w + x), unat (y * w + x + 1)] else [])"
    unfolding store_indices x_def [symmetric] y_def [symmetric]
    by (simp add: word_less_nat_alt x y W H)
  have sel: "(by = py div 8 \<and> bx = px div 2 div 32 \<and> ty = py mod 8 \<and> tx = px div 2 mod 32)
               \<longleftrightarrow> (Y = py \<and> (X = px \<or> X + 1 = px))"
    unfolding X_def Y_def using tx ty by (rule thread_select)
  show ?thesis
  proof (cases "X < W \<and> Y < H")
    case False
    then have "\<not> (Y = py \<and> (X = px \<or> X + 1 = px))" using px py by auto
    then show ?thesis using False idx sel by simp
  next
    case True
    obtain k where k: "W = 2 * k" using ev by (auto elim: evenE)
    define m where "m = 32 * bx + tx"
    have Xm: "X = 2 * m" unfolding X_def m_def by simp
    have "2 * m < 2 * k" using True k Xm by simp
    then have "m < k" by simp
    then have X1: "X + 1 < W" unfolding Xm k by linarith
    have "Y * W + (X + 1) < W * H" using X1 True by (intro in_image_index_bound) simp_all
    then have b: "Y * W + X + 1 < 2 ^ 32" using WH by simp
    have i0: "unat (y * w + x) = Y * W + X"
      using index_nat [of y w x 0] b x y W by simp
    have i1: "unat (y * w + x + 1) = Y * W + X + 1"
      using index_nat [of y w x 1] b x y W by simp
    have e0: "Y * W + X = py * W + px \<longleftrightarrow> Y = py \<and> X = px"
      using True px by (intro row_col_unique) simp_all
    have e1: "Y * W + X + 1 = py * W + px \<longleftrightarrow> Y = py \<and> X + 1 = px"
      using row_col_unique [of "X + 1" W px Y py] X1 px by simp
    show ?thesis using True idx i0 i1 e0 e1 sel by auto
  qed
qed

text \<open>
  C7. For a launch with non-null pointers and non-zero pitches, on an image whose width and
  height are even and at least 2 and which is valid for the kernel's 32-bit element index
  (at most \<open>2^32\<close> pixels, so that \<open>y * width + x\<close> does not wrap): for every pixel
  \<open>(px, py)\<close> with \<open>px < width\<close> and \<open>py < height\<close>, the element index \<open>py * width + px\<close>
  occurs exactly once among the stores of all threads dispatched. No pixel is left out and
  none is stored twice.
\<close>

theorem coverage_exactly_once:
  assumes ptr: "srcDev \<noteq> 0" "destDev \<noteq> 0" and pitch: "srcPitch \<noteq> 0" "destPitch \<noteq> 0"
    and wd: "even (unat width)" "2 \<le> unat width"
    and ht: "even (unat height)" "2 \<le> unat height"
    and WH: "unat width * unat height \<le> 2 ^ 32"
    and px: "px < unat width" and py: "py < unat height"
  shows "count_list
           (concat (map (\<lambda>e. map fst (stores e))
              (snd (launchNV12ToRGBA lastError make_vec_T mem srcDev srcPitch destDev destPitch
                      width height))))
           (py * unat width + px) = 1"
proof -
  define W where "W = unat width"
  define H where "H = unat height"
  define K where "K = (\<lambda>(blockIdx, threadIdx).
      NV12ToRGBA make_vec_T (\<lambda>i. mem (unat srcDev + i)) srcPitch destPitch
        (ucast width) (ucast height) blockIdx launch_blockDim threadIdx)"
  have W31: "W \<le> 2 ^ 31" using WH ht(2) unfolding W_def by (rule half_product_bound)
  have H31: "H \<le> 2 ^ 31"
    using WH wd(2) half_product_bound [of "unat height" "unat width"]
    unfolding H_def by (simp add: mult.commute)
  have w: "unat (ucast width :: u32) = W"
    unfolding W_def using W31 W_def by (intro unat_ucast_size_t) simp
  have h: "unat (ucast height :: u32) = H"
    unfolding H_def using H31 H_def by (intro unat_ucast_size_t) simp
  have nz: "width \<noteq> 0" "height \<noteq> 0" using wd(2) ht(2) by auto
  have launch: "snd (launchNV12ToRGBA lastError make_vec_T mem srcDev srcPitch destDev destPitch
                      width height)
                = map K (grid_threads (launch_gridDim width height) launch_blockDim)"
    using ptr pitch nz by (simp add: launchNV12ToRGBA_def Let_def K_def)
  have gx: "unat (dim_x (launch_gridDim width height)) = (W + 31) div 32"
    and gy: "unat (dim_y (launch_gridDim width height)) = (H + 7) div 8"
    using launch_gridDim_nat [of width height] W31 H31 unfolding W_def H_def by simp_all
  have bd: "unat (dim_x launch_blockDim) = 32" "unat (dim_y launch_blockDim) = 8"
    by (simp_all add: launch_blockDim_def)
  have "count_list (concat (map (\<lambda>e. map fst (stores e))
              (map K (grid_threads (launch_gridDim width height) launch_blockDim))))
           (py * W + px)
        = sum_list (map (\<lambda>t. count_list (map fst (stores (K t))) (py * W + px))
                     (grid_threads (launch_gridDim width height) launch_blockDim))"
    by (simp add: count_list_concat comp_def)
  also have "\<dots> = (\<Sum>by = 0..<(H + 7) div 8. \<Sum>bx = 0..<(W + 31) div 32.
        \<Sum>ty = 0..<8. \<Sum>tx = 0..<32.
          count_list (map fst (stores (K (dim3 (of_nat bx) (of_nat by) 0,
                                          dim3 (of_nat tx) (of_nat ty) 0)))) (py * W + px))"
    by (simp only: sum_grid gx gy bd)
  also have "\<dots> = (\<Sum>by = 0..<(H + 7) div 8. \<Sum>bx = 0..<(W + 31) div 32.
        \<Sum>ty = 0..<8. \<Sum>tx = 0..<32.
          if by = py div 8 \<and> bx = px div 2 div 32 \<and> ty = py mod 8 \<and> tx = px div 2 mod 32
          then 1 else 0)"
  proof (intro sum.cong refl)
    fix "by" bx ty tx :: nat
    assume "by \<in> {0..<(H + 7) div 8}" "bx \<in> {0..<(W + 31) div 32}"
           "ty \<in> {0..<8}" "tx \<in> {0..<32}"
    then have r: "by < (H + 7) div 8" "bx < (W + 31) div 32" "ty < 8" "tx < 32" by simp_all
    show "count_list (map fst (stores (K (dim3 (of_nat bx) (of_nat by) 0,
                                          dim3 (of_nat tx) (of_nat ty) 0)))) (py * W + px)
          = (if by = py div 8 \<and> bx = px div 2 div 32 \<and> ty = py mod 8 \<and> tx = px div 2 mod 32
             then 1 else 0)"
      unfolding K_def prod.case
      using w h wd(1) W31 H31 WH px py r(2) r(1) r(4) r(3)
      unfolding W_def [symmetric] H_def [symmetric]
      by (rule thread_store_count)
  qed
  also have "\<dots> = 1"
  proof (rule sum4_delta)
    show "py div 8 \<in> {0..<(H + 7) div 8}" using py unfolding H_def by (simp; arith)
    show "px div 2 div 32 \<in> {0..<(W + 31) div 32}" using px unfolding W_def by (simp; arith)
  qed simp_all
  finally show ?thesis unfolding launch W_def .
qed

theorem coverage_exactly_once_witness:
  "(1024 :: size_t) \<noteq> 0 \<and> (4096 :: size_t) \<noteq> 0 \<and> (4 :: size_t) \<noteq> 0 \<and> (16 :: size_t) \<noteq> 0
   \<and> even (unat (4 :: size_t)) \<and> 2 \<le> unat (4 :: size_t)
   \<and> even (unat (2 :: size_t)) \<and> 2 \<le> unat (2 :: size_t)
   \<and> unat (4 :: size_t) * unat (2 :: size_t) \<le> 2 ^ 32
   \<and> 3 < unat (4 :: size_t) \<and> 1 < unat (2 :: size_t)
   \<and> count_list
         (concat (map (\<lambda>e. map fst (stores e))
            (snd (launchNV12ToRGBA cudaSuccess (make_vec T_uchar4) (\<lambda>i. 16) 1024 4 4096 16 4 2))))
         (1 * unat (4 :: size_t) + 3) = 1"
proof -
  have "count_list
         (concat (map (\<lambda>e. map fst (stores e))
            (snd (launchNV12ToRGBA cudaSuccess (make_vec T_uchar4) (\<lambda>i. 16) 1024 4 4096 16 4 2))))
         (1 * unat (4 :: size_t) + 3) = 1"
    by (rule coverage_exactly_once) simp_all
  then show ?thesis by simp
qed

section \<open>Addressing of the destination and bounds\<close>

text \<open>
  C2. The claim is that rows of the destination are located with the destination pitch.
  The kernel receives \<open>nDestPitch\<close> and never uses it: the effect of a thread is the same
  for any two destination pitches, and the row stride is \<open>width\<close>. At width 2 and height 2
  the thread of pixels \<open>(0, 1)\<close> and \<open>(1, 1)\<close>, which the 4-channel byte entry point
  dispatches, stores at elements 2 and 3 for every destination pitch; with a pitch of 16
  bytes and 4-byte pixels row 1 begins at element 4, which is where the kernel \<open>Passthru\<close>
  of the same file stores them.
\<close>

theorem dest_pitch_unused:
  "NV12ToRGBA make_vec_T srcImageU8 nSourcePitch nDestPitch width height blockIdx blockDim threadIdx
     = NV12ToRGBA make_vec_T srcImageU8 nSourcePitch nDestPitch' width height blockIdx blockDim threadIdx
   \<and> map fst (stores (NV12ToRGBA make_vec_T srcImageU8 2 nDestPitch 2 2
                        (dim3 0 0 0) (dim3 32 8 1) (dim3 0 1 0))) = [2, 3]
   \<and> NV12ToRGBA (make_vec T_uchar4) (\<lambda>i. mem (unat (1024 :: size_t) + i)) 2 16 2 2
         (dim3 0 0 0) (dim3 32 8 1) (dim3 0 1 0)
       \<in> set (snd (cudaNV12ToRGBA_uchar4 lastError mem 1024 2 4096 16 2 2))
   \<and> map fst (stores (Passthru srcImageU8 2 16 2 2
                        (dim3 0 0 0) (dim3 32 8 1) (dim3 0 1 0))) = [4, 5]"
proof -
  have "NV12ToRGBA (make_vec T_uchar4) (\<lambda>i. mem (unat (1024 :: size_t) + i)) 2 16
           (ucast (2 :: size_t)) (ucast (2 :: size_t)) (dim3 (of_nat 0) (of_nat 0) 0)
           launch_blockDim (dim3 (of_nat 0) (of_nat 1) 0)
         \<in> set (snd (launchNV12ToRGBA lastError (make_vec T_uchar4) mem 1024 2 4096 16 2 2))"
    by (rule dispatched_member) (simp_all add: launch_gridDim_def launch_blockDim_def iDivUp_div)
  then show ?thesis
    by (simp add: NV12ToRGBA_def NV12ToRGBA_yuv_def Passthru_def thread_x_def thread_y_def
          Let_def word_le_nat_alt launch_blockDim_def cudaNV12ToRGBA_uchar4_def)
qed

text \<open>
  C1. The claim is that a thread checks \<open>x\<close>, \<open>x + 1\<close> and \<open>y\<close> and touches no memory out
  of bounds. The kernel checks \<open>x\<close> and \<open>y\<close> only. At width 3, height 2 and source pitch 3
  the thread with \<open>x = 2\<close>, \<open>y = 1\<close>, which the launch dispatches, passes both guards
  although \<open>x + 1 = width\<close>: it stores at elements 5 and 6 of a destination of
  \<open>3 * 2 = 6\<close> elements, and loads the source bytes at offsets 5, 6, 8 and 9, where the luma
  and chroma planes together have \<open>3 * 2 + 3 * 1 = 9\<close> bytes.
\<close>

theorem odd_width_out_of_bounds:
  "thread_x (dim3 0 0 0) (dim3 32 8 1) (dim3 1 1 0) = 2
   \<and> thread_y (dim3 0 0 0) (dim3 32 8 1) (dim3 1 1 0) = 1
   \<and> map fst (stores (NV12ToRGBA make_vec_T srcImageU8 3 nDestPitch 3 2
                        (dim3 0 0 0) (dim3 32 8 1) (dim3 1 1 0))) = [5, 6]
   \<and> loads (NV12ToRGBA make_vec_T srcImageU8 3 nDestPitch 3 2
               (dim3 0 0 0) (dim3 32 8 1) (dim3 1 1 0)) = [5, 6, 8, 9]
   \<and> NV12ToRGBA make_vec_T (\<lambda>i. mem (unat (1024 :: size_t) + i)) 3 12 3 2
         (dim3 0 0 0) (dim3 32 8 1) (dim3 1 1 0)
       \<in> set (snd (launchNV12ToRGBA lastError make_vec_T mem 1024 3 4096 12 3 2))"
proof -
  have "NV12ToRGBA make_vec_T (\<lambda>i. mem (unat (1024 :: size_t) + i)) 3 12
           (ucast (3 :: size_t)) (ucast (2 :: size_t)) (dim3 (of_nat 0) (of_nat 0) 0) launch_blockDim
           (dim3 (of_nat 1) (of_nat 1) 0)
         \<in> set (snd (launchNV12ToRGBA lastError make_vec_T mem 1024 3 4096 12 3 2))"
    by (rule dispatched_member) (simp_all add: launch_gridDim_def launch_blockDim_def iDivUp_div)
  then show ?thesis
    by (simp add: NV12ToRGBA_def NV12ToRGBA_yuv_def thread_x_def thread_y_def Let_def
        word_le_nat_alt launch_blockDim_def)
qed

section \<open>Bounds on images of even width and height\<close>

text \<open>
  Where the two guards are enough. When width and height are even, the source pitch is at
  least the width and the source extents \<open>P * H + P * (H div 2)\<close> (luma plane and chroma
  plane) fit the 32-bit index arithmetic, every thread, whatever its block and thread index,
  loads only inside the source extents and stores only inside the \<open>W * H\<close> elements of the
  destination: \<open>x\<close> is even, so \<open>x < width\<close> gives \<open>x + 1 < width\<close>.
\<close>

lemma signed_drop_bit_small:
  fixes y :: u32
  assumes "unat y < 2 ^ 31"
  shows "unat (signed_drop_bit 1 y) = unat y div 2"
proof -
  have "take_bit 31 (unat y) = unat y" using assms by (simp add: take_bit_nat_eq_self)
  then have "bit (unat y) 31 \<longleftrightarrow> bit (take_bit 31 (unat y)) 31" by simp
  then have "\<not> bit (unat y) 31" by (simp add: bit_take_bit_iff)
  then have "\<not> bit y 31" by (simp add: bit_unsigned_iff)
  then have "signed_drop_bit 1 y = drop_bit 1 y"
    by (intro bit_word_eqI) (auto simp add: bit_signed_drop_bit_iff bit_drop_bit_eq dest: bit_imp_le_length)
  then show ?thesis by (simp add: unat_drop_bit_eq drop_bit_eq_div unat_div_distrib)
qed

lemma chroma_index_nat:
  fixes p h r x :: u32
  assumes "unat p * unat h + unat r * unat p + unat x + k < 2 ^ 32"
  shows "unat (p * h + r * p + x + of_nat k) = unat p * unat h + unat r * unat p + unat x + k"
proof -
  have "p * h + r * p + x + of_nat k = of_nat (unat p * unat h + unat r * unat p + unat x + k)"
    by simp
  then show ?thesis using assms unat_of_nat32 by metis
qed

lemma loads_cases:
  fixes width height x y p :: u32 and blockIdx blockDim threadIdx :: dim3
    and nSourcePitch :: size_t
  defines "x \<equiv> thread_x blockIdx blockDim threadIdx"
      and "y \<equiv> thread_y blockIdx blockDim threadIdx"
      and "p \<equiv> ucast nSourcePitch"
  shows "loads (NV12ToRGBA make_vec_T srcImageU8 nSourcePitch nDestPitch width height
                  blockIdx blockDim threadIdx) =
     (if x < width \<and> y < height then
        [unat (y * p + x), unat (y * p + x + 1),
         unat (p * height + signed_drop_bit 1 y * p + x),
         unat (p * height + signed_drop_bit 1 y * p + x + 1)]
        @ (if y AND 1 \<noteq> 0 then
             (if signed_drop_bit 1 y < drop_bit 1 height - 1 then
                [unat (p * height + (signed_drop_bit 1 y + 1) * p + x),
                 unat (p * height + (signed_drop_bit 1 y + 1) * p + x + 1)]
              else [])
           else [unat (p * height + signed_drop_bit 1 y * p + x),
                 unat (p * height + signed_drop_bit 1 y * p + x + 1)])
      else [])"
  unfolding assms
  by (auto simp add: NV12ToRGBA_def NV12ToRGBA_yuv_def Let_def no_effect_def not_le)

lemma even_image_in_bounds:
  fixes width height :: u32 and nSourcePitch :: size_t
    and blockIdx blockDim threadIdx :: dim3 and W H P :: nat
  defines "W \<equiv> unat width" and "H \<equiv> unat height"
      and "P \<equiv> unat (ucast nSourcePitch :: u32)"
  assumes evW: "even W" and evH: "even H" and pw: "W \<le> P"
      and ext: "P * H + P * (H div 2) \<le> 2 ^ 32"
  shows "list_all (\<lambda>i. i < P * H + P * (H div 2))
           (loads (NV12ToRGBA make_vec_T srcImageU8 nSourcePitch nDestPitch width height
                     blockIdx blockDim threadIdx))
       \<and> list_all (\<lambda>i. i < W * H)
           (map fst (stores (NV12ToRGBA make_vec_T srcImageU8 nSourcePitch nDestPitch width height
                               blockIdx blockDim threadIdx)))"
proof -
  define x where "x = thread_x blockIdx blockDim threadIdx"
  define y where "y = thread_y blockIdx blockDim threadIdx"
  define row where "row = signed_drop_bit 1 y"
  define p where "p = (ucast nSourcePitch :: u32)"
  define X where "X = unat x"
  define Y where "Y = unat y"
  define h2 where "h2 = H div 2"
  note lc = loads_cases [of make_vec_T srcImageU8 nSourcePitch nDestPitch width height
      blockIdx blockDim threadIdx, folded x_def y_def p_def, folded row_def]
  note sc = store_indices [of make_vec_T srcImageU8 nSourcePitch nDestPitch width height
      blockIdx blockDim threadIdx, folded x_def y_def]
  have P: "unat p = P" by (simp add: P_def p_def)
  show ?thesis
  proof (cases "x < width \<and> y < height")
    case False
    then show ?thesis unfolding lc sc by auto
  next
    case True
    then have XW: "X < W" and YH: "Y < H"
      by (simp_all add: word_less_nat_alt X_def Y_def W_def H_def)
    have H2: "H = 2 * h2" using evH by (simp add: h2_def)
    have h2pos: "0 < h2" using YH H2 by simp
    obtain a where a: "X = 2 * a"
      using thread_x_even [of blockIdx blockDim threadIdx] unfolding X_def x_def
      by (auto elim: evenE)
    obtain b where b: "W = 2 * b" using evW by (auto elim: evenE)
    have "a < b" using XW a b by simp
    then have X1W: "X + 1 < W" unfolding a b by linarith
    then have X1P: "X + 1 < P" using pw by simp
    have P2: "2 \<le> P" using X1P by simp
    have Rh: "Y div 2 < h2" using YH H2 by simp
    have lum: "Y * P + (X + 1) < P * H" using X1P YH by (rule in_image_index_bound)
    have chr: "Y div 2 * P + (X + 1) < P * h2" using X1P Rh by (rule in_image_index_bound)
    have "P * h2 \<ge> 1" using P2 h2pos by (simp add: Suc_le_eq)
    then have PH: "P * H < 2 ^ 32" using ext unfolding h2_def [symmetric] by linarith
    have "2 * H \<le> P * H" using P2 by (rule mult_le_mono1)
    then have "2 * H < 2 ^ 32" using PH by (rule le_less_trans)
    then have "H < 2 ^ 31" by simp
    then have Y31: "Y < 2 ^ 31" using YH by simp
    have R: "unat row = Y div 2"
      using Y31 unfolding Y_def row_def by (rule signed_drop_bit_small)
    have hh: "unat height = H" by (simp add: H_def)
    have ww: "unat width = W" by (simp add: W_def)
    have l0: "unat (y * p + x) = Y * P + X"
      using index_nat [of y p x 0] lum PH by (simp add: P X_def Y_def)
    have l1: "unat (y * p + x + 1) = Y * P + X + 1"
      using index_nat [of y p x 1] lum PH by (simp add: P X_def Y_def)
    have cb: "P * H + Y div 2 * P + X + 1 < 2 ^ 32"
      using chr ext unfolding h2_def [symmetric] by linarith
    have c0: "unat (p * height + row * p + x) = P * H + Y div 2 * P + X"
      using chroma_index_nat [of p height "row" x 0] cb
      by (simp add: P R hh X_def)
    have c1: "unat (p * height + row * p + x + 1) = P * H + Y div 2 * P + X + 1"
      using chroma_index_nat [of p height "row" x 1] cb
      by (simp add: P R hh X_def)
    have nxt: "unat (p * height + (row + 1) * p + x)
                 = P * H + (Y div 2 + 1) * P + X
             \<and> unat (p * height + (row + 1) * p + x + 1)
                 = P * H + (Y div 2 + 1) * P + X + 1
             \<and> (Y div 2 + 1) * P + (X + 1) < P * h2"
      if lt: "row < drop_bit 1 height - 1"
    proof -
      have d: "unat (drop_bit 1 height) = h2"
        by (simp add: unat_drop_bit_eq drop_bit_eq_div unat_div_distrib hh h2_def)
      then have "drop_bit 1 height \<noteq> 0" using h2pos by auto
      then have "unat (drop_bit 1 height - 1) = h2 - 1" using d by (simp add: unat_minus_one)
      then have R1: "Y div 2 + 1 < h2" using lt R by (simp add: word_less_nat_alt)
      have "(of_nat (Y div 2 + 1) :: u32) = row + 1"
        unfolding R [symmetric] by simp
      moreover have "Y div 2 + 1 < 2 ^ 32" using Y31 by simp
      ultimately have r1: "unat (row + 1) = Y div 2 + 1"
        using unat_of_nat32 by metis
      have n: "(Y div 2 + 1) * P + (X + 1) < P * h2" using X1P R1 by (rule in_image_index_bound)
      then have nb: "P * H + (Y div 2 + 1) * P + X + 1 < 2 ^ 32"
        using ext unfolding h2_def [symmetric] by linarith
      have n0: "unat (p * height + (row + 1) * p + x)
                 = P * H + (Y div 2 + 1) * P + X"
        using chroma_index_nat [of p height "row + 1" x 0] nb
        by (simp add: P r1 hh X_def)
      have n1: "unat (p * height + (row + 1) * p + x + 1)
                 = P * H + (Y div 2 + 1) * P + X + 1"
        using chroma_index_nat [of p height "row + 1" x 1] nb
        by (simp add: P r1 hh X_def)
      from n0 n1 n show ?thesis by simp
    qed
    have st: "Y * W + (X + 1) < W * H" using X1W YH by (rule in_image_index_bound)
    have "W * H \<le> P * H" using pw by (rule mult_le_mono1)
    then have WH: "W * H < 2 ^ 32" using PH by (rule le_less_trans)
    have s0: "unat (y * width + x) = Y * W + X"
      using index_nat [of y width x 0] st WH by (simp add: ww X_def Y_def)
    have s1: "unat (y * width + x + 1) = Y * W + X + 1"
      using index_nat [of y width x 1] st WH by (simp add: ww X_def Y_def)
    have loads_ok: "list_all (\<lambda>i. i < P * H + P * (H div 2))
           (loads (NV12ToRGBA make_vec_T srcImageU8 nSourcePitch nDestPitch width height
                     blockIdx blockDim threadIdx))"
      unfolding lc h2_def [symmetric]
      using True lum chr nxt by (auto simp add: l0 l1 c0 c1)
    have stores_ok: "list_all (\<lambda>i. i < W * H)
           (map fst (stores (NV12ToRGBA make_vec_T srcImageU8 nSourcePitch nDestPitch width height
                               blockIdx blockDim threadIdx)))"
      unfolding sc using True st by (simp add: s0 s1)
    from loads_ok stores_ok show ?thesis by simp
  qed
qed

end
